theory Spec2Isabelle
  imports Complex_Main "HOL-Library.Word" "HOL-Library.Multiset"
begin

section \<open>JavaScript values\<close>

text \<open>
  A JavaScript string is a sequence of UTF-16 code units and \<open>.length\<close> counts them, so a
  string is a list of 16-bit words. \<open>ascii\<close> writes the literals of the examples.
\<close>

type_synonym jsstring = "16 word list"

definition ascii :: "string \<Rightarrow> jsstring" where
  "ascii s = map of_char s"

text \<open>
  What a promise rejects with, or what a throw inside an \<open>async\<close> function turns into:
  \<open>TypeError\<close> is the dereference of \<open>undefined\<close>, \<open>DatabaseError\<close> the rejection of a
  lookup of the emoji database (the dataset cannot be loaded or searched).
\<close>

datatype error = TypeError | DatabaseError

text \<open>\<open>xs[i]\<close> is \<open>undefined\<close> (here \<open>None\<close>) out of range.\<close>

definition js_index :: "'a list \<Rightarrow> nat \<Rightarrow> 'a option" where
  "js_index xs i = (if i < length xs then Some (xs ! i) else None)"

text \<open>\<open>a || b\<close> on \<open>string | undefined\<close>: \<open>undefined\<close> and the empty string are falsy.\<close>

definition js_or :: "jsstring option \<Rightarrow> jsstring option \<Rightarrow> jsstring option" where
  "js_or a b = (case a of None \<Rightarrow> b | Some s \<Rightarrow> if s = [] then b else Some s)"

text \<open>
  A JavaScript number: a finite value, an infinity or \<open>NaN\<close>. The finite doubles are
  rationals; the only arithmetic on such a number below is \<open>queryLimit - 1\<close> compared with
  an array index, and there rounding never changes the result of the comparison.
\<close>

datatype jsnumber = Finite rat | PosInfinity | NegInfinity | NaN

section \<open>The emoji database (emoji-picker-element)\<close>

text \<open>
  The records of the external library, with the fields the plugin reads. \<open>skins\<close> is an
  optional property: \<open>None\<close> is a record without the key. A custom emoji has no
  \<open>annotation\<close>; only its name is kept. The tone of a skin is a tone rank, or an array of
  ranks for a glyph that shows several skin tones.
\<close>

datatype Tone = ToneNumber int | ToneArray "int list"

record EmojiSkin =
  tone :: Tone
  skin_unicode :: jsstring

record NativeEmoji =
  annotation :: jsstring
  unicode :: jsstring
  skins :: "EmojiSkin list option"

datatype Emoji = Native NativeEmoji | Custom jsstring

text \<open>
  The two lookups of a \<open>Database\<close>. Each returns a promise; \<open>Inl\<close> is its rejection and
  \<open>Inr\<close> the value it resolves with.
\<close>

record Database =
  getEmojiByGroup :: "int \<Rightarrow> error + NativeEmoji list"
  getEmojiBySearchQuery :: "jsstring \<Rightarrow> error + Emoji list"

section \<open>emojipicker.ts: the data of the plugin\<close>

record EmojiItem =
  name :: jsstring
  emojis :: "jsstring list"

record EmojiGroup =
  title :: jsstring
  exampleEmoji :: jsstring
  items :: "EmojiItem list"

text \<open>
  The private fields of \<open>EmojiPicker\<close>; \<open>p_x\<close> is the field \<open>_x\<close>. \<open>_emojiPickerView\<close> is
  only tested for being set, \<open>_balloon\<close> and \<open>_emojiDatabase\<close> are external objects (the
  database is a parameter of the functions below).
\<close>

record EmojiPicker =
  p_emojis :: "jsstring \<rightharpoonup> jsstring list"
  p_emojiGroups :: "EmojiGroup list"
  p_emojiPickerView :: bool
  p_selectedSkinTone :: nat
  p_searchQuery :: "jsstring option"

text \<open>
  Modelled from the spec: the class EmojiGridView is not among the sources; a tile is a
  renderable emoji option with a display glyph and an identifying name, here the two
  arguments of \<open>gridView.createTile( emoji, name )\<close> (the glyph possibly \<open>undefined\<close>).
\<close>

record Tile =
  tile_emoji :: "jsstring option"
  tile_name :: jsstring

definition createTile :: "jsstring option \<Rightarrow> jsstring \<Rightarrow> Tile" where
  "createTile emoji nm = \<lparr>tile_emoji = emoji, tile_name = nm\<rparr>"

text \<open>
  Modelled from the spec: the classes EmojiGridView and EmojiCategoriesView are not among
  the sources; \<open>enableCategories()\<close> and \<open>disableCategories()\<close> enable and disable the
  category selection, kept here as one flag. The record holds the parts of
  \<open>DropdownPanelContent\<close> that \<open>_updateGrid\<close> reads and writes: \<open>gridView.tiles\<close>,
  \<open>categoriesView.currentCategoryName\<close> and that flag.
\<close>

record DropdownPanelContent =
  tiles :: "Tile list"
  currentCategoryName :: jsstring
  categoriesEnabled :: bool

section \<open>\<open>_getEmojiGroup\<close>\<close>

text \<open>
  \<open>ToNumber\<close> of a tone, as the subtraction \<open>a.tone - b.tone\<close> applies it; \<open>None\<close> is
  \<open>NaN\<close>. An array is converted through its string: the empty array is 0, an array of one
  rank is that rank, a longer one (\<open>'1,2'\<close>) is not a number.
\<close>

fun toNumber :: "Tone \<Rightarrow> int option" where
  "toNumber (ToneNumber n) = Some n"
| "toNumber (ToneArray []) = Some 0"
| "toNumber (ToneArray [n]) = Some n"
| "toNumber (ToneArray (n # m # ns)) = None"

text \<open>The comparator \<open>( a, b ) => a.tone - b.tone\<close>; \<open>None\<close> is \<open>NaN\<close>.\<close>

definition compareTone :: "EmojiSkin \<Rightarrow> EmojiSkin \<Rightarrow> int option" where
  "compareTone a b =
     (case (toNumber (tone a), toNumber (tone b)) of
        (Some x, Some y) \<Rightarrow> Some (x - y)
      | _ \<Rightarrow> None)"

text \<open>
  \<open>Array.prototype.sort( comparefn )\<close>. The comparison the sort uses takes a \<open>NaN\<close> of
  the comparator for \<open>+0\<close>. When that comparison is a consistent comparator for the
  elements (ECMAScript's conditions, below), the result is fixed: the elements ordered by
  it, equal ones in their former order, here computed by insertion. Otherwise the order
  is implementation-defined, and \<open>impl\<close> stands for what the engine makes of the array.
\<close>

definition sortCompare :: "('a \<Rightarrow> 'a \<Rightarrow> int option) \<Rightarrow> 'a \<Rightarrow> 'a \<Rightarrow> int" where
  "sortCompare comparefn x y = (case comparefn x y of None \<Rightarrow> 0 | Some v \<Rightarrow> v)"

definition consistentComparator :: "('a \<Rightarrow> 'a \<Rightarrow> int) \<Rightarrow> 'a list \<Rightarrow> bool" where
  "consistentComparator c xs =
     (\<forall>a\<in>set xs. \<forall>b\<in>set xs. \<forall>d\<in>set xs.
        c a a = 0 \<and>
        (c a b = 0 \<longrightarrow> c b a = 0) \<and>
        (c a b = 0 \<and> c b d = 0 \<longrightarrow> c a d = 0) \<and>
        (c a b < 0 \<and> c b d < 0 \<longrightarrow> c a d < 0) \<and>
        (c a b > 0 \<and> c b d > 0 \<longrightarrow> c a d > 0))"

fun insertSorted :: "('a \<Rightarrow> 'a \<Rightarrow> int) \<Rightarrow> 'a \<Rightarrow> 'a list \<Rightarrow> 'a list" where
  "insertSorted c x [] = [x]"
| "insertSorted c x (y # ys) = (if c x y \<le> 0 then x # y # ys else y # insertSorted c x ys)"

definition stableSort :: "('a \<Rightarrow> 'a \<Rightarrow> int) \<Rightarrow> 'a list \<Rightarrow> 'a list" where
  "stableSort c xs = foldr (insertSorted c) xs []"

definition arraySort ::
  "('a list \<Rightarrow> 'a list) \<Rightarrow> ('a \<Rightarrow> 'a \<Rightarrow> int option) \<Rightarrow> 'a list \<Rightarrow> 'a list"
where
  "arraySort impl comparefn xs =
     (if consistentComparator (sortCompare comparefn) xs then stableSort (sortCompare comparefn) xs
      else impl xs)"

text \<open>
  The callback of \<open>databaseGroup.map\<close>, without its write to \<open>_emojis\<close>:
  \<open>[ item.unicode ]\<close>, and when the record has skins, their glyphs pushed after it in the
  order of \<open>item.skins.sort( ( a, b ) => a.tone - b.tone )\<close>.
\<close>

definition emojiItem :: "(EmojiSkin list \<Rightarrow> EmojiSkin list) \<Rightarrow> NativeEmoji \<Rightarrow> EmojiItem" where
  "emojiItem impl item =
     \<lparr>name = annotation item,
      emojis = unicode item #
        (case skins item of
           None \<Rightarrow> []
         | Some sk \<Rightarrow> map skin_unicode (arraySort impl compareTone sk))\<rparr>"

text \<open>The map over the group, threading \<open>this._emojis.set( name, emojis )\<close>.\<close>

fun mapItems ::
  "(EmojiSkin list \<Rightarrow> EmojiSkin list) \<Rightarrow> (jsstring \<rightharpoonup> jsstring list) \<Rightarrow> NativeEmoji list \<Rightarrow>
     (jsstring \<rightharpoonup> jsstring list) \<times> EmojiItem list"
where
  "mapItems impl m [] = (m, [])"
| "mapItems impl m (item # rest) =
     (let it = emojiItem impl item;
          (m', its) = mapItems impl (m(name it \<mapsto> emojis it)) rest
      in (m', it # its))"

text \<open>
  \<open>_getEmojiGroup\<close> awaits the database first; a rejection leaves the function at the
  \<open>await\<close>, before anything is written. The picker given is the one at the time the lookup
  settles.
\<close>

definition getEmojiGroup ::
  "(EmojiSkin list \<Rightarrow> EmojiSkin list) \<Rightarrow> Database \<Rightarrow> EmojiPicker \<Rightarrow> int \<Rightarrow> jsstring \<Rightarrow> jsstring \<Rightarrow>
     EmojiPicker \<times> (error + EmojiGroup)"
where
  "getEmojiGroup impl db p databaseId ttl example =
     (case getEmojiByGroup db databaseId of
        Inl e \<Rightarrow> (p, Inl e)
      | Inr databaseGroup \<Rightarrow>
          (let (m, its) = mapItems impl (p_emojis p) databaseGroup
           in (p\<lparr>p_emojis := m\<rparr>,
               Inr \<lparr>title = ttl, exampleEmoji = example, items = its\<rparr>)))"

section \<open>\<open>_updateGrid\<close> and its helpers\<close>

text \<open>
  \<open>this._emojiGroups.find( group => group.title === groupName )!.items\<close>: the first group
  of that title; with none, \<open>find\<close> gives \<open>undefined\<close> and \<open>.items\<close> throws.
\<close>

definition getEmojisForCategory :: "EmojiPicker \<Rightarrow> jsstring \<Rightarrow> error + EmojiItem list" where
  "getEmojisForCategory p groupName =
     (case find (\<lambda>g. title g = groupName) (p_emojiGroups p) of
        None \<Rightarrow> Inl TypeError
      | Some g \<Rightarrow> Inr (items g))"

text \<open>\<open>item.emojis[ this._selectedSkinTone ] || item.emojis[ 0 ]\<close>\<close>

definition tileEmoji :: "nat \<Rightarrow> EmojiItem \<Rightarrow> jsstring option" where
  "tileEmoji k item = js_or (js_index (emojis item) k) (js_index (emojis item) 0)"

text \<open>The tile one round of the loop of \<open>_addTilesToGrid\<close> creates.\<close>

definition itemTile :: "EmojiPicker \<Rightarrow> EmojiItem \<Rightarrow> Tile" where
  "itemTile p item = createTile (tileEmoji (p_selectedSkinTone p) item) (name item)"

fun addTilesToGrid ::
  "EmojiPicker \<Rightarrow> DropdownPanelContent \<Rightarrow> EmojiItem list \<Rightarrow> DropdownPanelContent"
where
  "addTilesToGrid p v [] = v"
| "addTilesToGrid p v (item # rest) =
     addTilesToGrid p (v\<lparr>tiles := tiles v @ [itemTile p item]\<rparr>) rest"

text \<open>
  How a call of the \<open>async\<close> function \<open>_updateGrid\<close> leaves its current segment: it
  returned, it is suspended at \<open>await getEmojiBySearchQuery( q )\<close>, or it threw (its promise
  rejects).
\<close>

datatype outcome = Completed | Awaiting jsstring | Threw error

text \<open>\<open>!this._searchQuery || this._searchQuery.length < 2\<close>\<close>

definition shortQuery :: "jsstring option \<Rightarrow> bool" where
  "shortQuery q = (case q of None \<Rightarrow> True | Some s \<Rightarrow> s = [] \<or> length s < 2)"

text \<open>The synchronous segment of \<open>_updateGrid\<close>, up to the \<open>await\<close>.\<close>

definition updateGrid ::
  "EmojiPicker \<Rightarrow> DropdownPanelContent \<Rightarrow> DropdownPanelContent \<times> outcome"
where
  "updateGrid p v =
     (let v1 = v\<lparr>tiles := []\<rparr> in
      if shortQuery (p_searchQuery p) then
        (case getEmojisForCategory p (currentCategoryName v1) of
           Inl e \<Rightarrow> (v1, Threw e)
         | Inr emojisForCategory \<Rightarrow>
             ((addTilesToGrid p v1 emojisForCategory)\<lparr>categoriesEnabled := True\<rparr>, Completed))
      else (v1, Awaiting (the (p_searchQuery p))))"

text \<open>
  The callback of \<open>queryResult.map\<close>: the name is the annotation, or \<open>''\<close> for a record
  without one; \<open>null\<close> when \<open>_emojis\<close> has no entry of that name.
\<close>

definition queriedName :: "Emoji \<Rightarrow> jsstring" where
  "queriedName queriedEmoji = (case queriedEmoji of Native e \<Rightarrow> annotation e | Custom _ \<Rightarrow> [])"

definition queriedTile :: "EmojiPicker \<Rightarrow> Emoji \<Rightarrow> EmojiItem option" where
  "queriedTile p queriedEmoji =
     (let nm = queriedName queriedEmoji
      in case p_emojis p nm of
           None \<Rightarrow> None
         | Some ems \<Rightarrow> Some \<lparr>name = nm, emojis = ems\<rparr>)"

text \<open>\<open>tilesToAdd.filter( Boolean )\<close>\<close>

fun filterBoolean :: "'a option list \<Rightarrow> 'a list" where
  "filterBoolean [] = []"
| "filterBoolean (None # xs) = filterBoolean xs"
| "filterBoolean (Some x # xs) = x # filterBoolean xs"

text \<open>
  The segment of \<open>_updateGrid\<close> after the \<open>await\<close>, run when the lookup settles, on the
  picker and the panel as they are then. A rejected lookup throws at the \<open>await\<close>.
\<close>

definition updateGrid_resumed ::
  "EmojiPicker \<Rightarrow> DropdownPanelContent \<Rightarrow> error + Emoji list \<Rightarrow> DropdownPanelContent \<times> outcome"
where
  "updateGrid_resumed p v settled =
     (case settled of
        Inl e \<Rightarrow> (v, Threw e)
      | Inr queryResult \<Rightarrow>
          (let tilesToAdd = map (queriedTile p) queryResult
           in ((addTilesToGrid p v (filterBoolean tilesToAdd))\<lparr>categoriesEnabled := False\<rparr>,
               Completed)))"

text \<open>
  The tiles that the resumed segment adds for a query result: the loop of
  \<open>_addTilesToGrid\<close> over \<open>tilesToAdd.filter( Boolean )\<close>.
\<close>

definition resultTiles :: "EmojiPicker \<Rightarrow> Emoji list \<Rightarrow> Tile list" where
  "resultTiles p queryResult = map (itemTile p) (filterBoolean (map (queriedTile p) queryResult))"

section \<open>The handlers of the panel\<close>

text \<open>
  What the plugin asks of the editor and the balloon. \<open>this._balloon.updatePosition()\<close>
  after a finished grid update only moves the balloon and is not recorded.
\<close>

datatype effect = InsertText jsstring | BalloonRemove | FocusEditingView

text \<open>
  \<open>_hideUI\<close>: the view is removed from the balloon when there is one, the editing view
  is focused, the search query becomes \<open>''\<close>.
\<close>

definition hideUI :: "EmojiPicker \<Rightarrow> EmojiPicker \<times> effect list" where
  "hideUI p =
     (p\<lparr>p_searchQuery := Some []\<rparr>,
      (if p_emojiPickerView p then [BalloonRemove] else []) @ [FocusEditingView])"

text \<open>
  Modelled from the spec: the type EmojiGridViewExecuteEvent is not among the sources; each
  tile exposes its name and its glyph, and they are the data of the grid's \<open>execute\<close>
  event.
\<close>

record ExecuteData =
  exec_name :: jsstring
  exec_emoji :: jsstring

text \<open>
  The listener of \<open>gridView.on( 'execute' )\<close>:
  \<open>this.editor.execute( 'insertText', { text: data.emoji } ); this._hideUI();\<close>
\<close>

definition onExecute :: "EmojiPicker \<Rightarrow> ExecuteData \<Rightarrow> EmojiPicker \<times> effect list" where
  "onExecute p d =
     (let (p', effs) = hideUI p in (p', InsertText (exec_emoji d) # effs))"

text \<open>
  The picker with one open panel. JavaScript runs one listener at a time, and the part of
  \<open>_updateGrid\<close> after its \<open>await\<close> runs later, as a step of its own, when the lookup
  settles. \<open>inflight\<close> holds the queries of the suspended calls, oldest first;
  \<open>unhandled\<close> the rejections of \<open>_updateGrid\<close>'s promise, which no listener catches;
  \<open>effects\<close> what was asked of the editor.
\<close>

record PickerSystem =
  picker :: EmojiPicker
  panel :: DropdownPanelContent
  inflight :: "jsstring list"
  unhandled :: "error list"
  effects :: "effect list"

text \<open>
  The events: the search view's \<open>input\<close>, the categories view's
  \<open>change:currentCategoryName\<close> (the view has set the property before it fires), the tone
  view's \<open>change:selectedSkinTone\<close>, the grid's \<open>execute\<close>, and the settling of the
  \<open>i\<close>-th suspended lookup.
\<close>

datatype event =
    SearchInput jsstring
  | CategoryChange jsstring
  | ToneChange nat
  | TileExecute ExecuteData
  | LookupSettles nat

text \<open>What a listener does with the outcome of its call of \<open>_updateGrid\<close>.\<close>

definition afterUpdate :: "PickerSystem \<Rightarrow> DropdownPanelContent \<times> outcome \<Rightarrow> PickerSystem" where
  "afterUpdate s r =
     (case r of
        (v, Completed) \<Rightarrow> s\<lparr>panel := v\<rparr>
      | (v, Awaiting q) \<Rightarrow> s\<lparr>panel := v, inflight := inflight s @ [q]\<rparr>
      | (v, Threw e) \<Rightarrow> s\<lparr>panel := v, unhandled := unhandled s @ [e]\<rparr>)"

definition removeAt :: "nat \<Rightarrow> 'a list \<Rightarrow> 'a list" where
  "removeAt i xs = take i xs @ drop (Suc i) xs"

fun step :: "Database \<Rightarrow> PickerSystem \<Rightarrow> event \<Rightarrow> PickerSystem" where
  "step db s (SearchInput v) =
     (let p = (picker s)\<lparr>p_searchQuery := Some v\<rparr>
      in afterUpdate (s\<lparr>picker := p\<rparr>) (updateGrid p (panel s)))"
| "step db s (CategoryChange c) =
     (let v = (panel s)\<lparr>currentCategoryName := c\<rparr>
      in afterUpdate s (updateGrid (picker s) v))"
| "step db s (ToneChange newValue) =
     (let p = (picker s)\<lparr>p_selectedSkinTone := newValue\<rparr>
      in afterUpdate (s\<lparr>picker := p\<rparr>) (updateGrid p (panel s)))"
| "step db s (TileExecute d) =
     (let (p, effs) = onExecute (picker s) d
      in s\<lparr>picker := p, effects := effects s @ effs\<rparr>)"
| "step db s (LookupSettles i) =
     (if i < length (inflight s) then
        afterUpdate (s\<lparr>inflight := removeAt i (inflight s)\<rparr>)
          (updateGrid_resumed (picker s) (panel s) (getEmojiBySearchQuery db (inflight s ! i)))
      else s)"

fun run :: "Database \<Rightarrow> PickerSystem \<Rightarrow> event list \<Rightarrow> PickerSystem" where
  "run db s [] = s"
| "run db s (e # es) = run db (step db s e) es"

section \<open>emojilibraryintegration.ts: \<open>getQueryEmojiFn\<close>\<close>

record MentionFeedObjectItem =
  item_id :: jsstring
  item_text :: "jsstring option"

text \<open>
  \<open>formatEmojiId\<close> and \<open>getShowAllEmojiId\<close> of utils.js, which is not among the sources,
  and the locale's \<open>toLocaleLowerCase\<close>, are parameters.
\<close>

record EmojiUtils =
  formatEmojiId :: "jsstring \<Rightarrow> jsstring"
  getShowAllEmojiId :: jsstring
  toLocaleLowerCase :: "jsstring \<Rightarrow> jsstring"

text \<open>\<open>replace( /[ :]+/g, '_' )\<close>: every maximal run of spaces and colons becomes one \<open>_\<close>.\<close>

definition isSeparator :: "16 word \<Rightarrow> bool" where
  "isSeparator c = (c = 0x20 \<or> c = 0x3A)"

function replaceSeparators :: "jsstring \<Rightarrow> jsstring" where
  "replaceSeparators [] = []"
| "replaceSeparators (c # cs) =
     (if isSeparator c then 0x5F # replaceSeparators (dropWhile isSeparator cs)
      else c # replaceSeparators cs)"
  by pat_completeness auto
termination
  by (relation "measure length") (auto simp: less_Suc_eq_le length_dropWhile_le)

text \<open>
  The callback of the first \<open>map\<close>. The result is cast to \<open>Array<NativeEmoji>\<close>; on a
  record without \<open>annotation\<close> the call of \<open>replace\<close> on \<open>undefined\<close> throws.
\<close>

definition feedItem :: "EmojiUtils \<Rightarrow> Emoji \<Rightarrow> error + MentionFeedObjectItem" where
  "feedItem u emoji =
     (case emoji of
        Custom _ \<Rightarrow> Inl TypeError
      | Native e \<Rightarrow>
          Inr \<lparr>item_id = formatEmojiId u (toLocaleLowerCase u (replaceSeparators (annotation e))),
               item_text = Some (unicode e)\<rparr>)"

fun mapFeed :: "EmojiUtils \<Rightarrow> Emoji list \<Rightarrow> error + MentionFeedObjectItem list" where
  "mapFeed u [] = Inr []"
| "mapFeed u (emoji # rest) =
     (case feedItem u emoji of
        Inl e \<Rightarrow> Inl e
      | Inr it \<Rightarrow> (case mapFeed u rest of Inl e \<Rightarrow> Inl e | Inr its \<Rightarrow> Inr (it # its)))"

text \<open>
  \<open>index < queryLimit - 1\<close> on numbers: false for \<open>NaN\<close>, and \<open>Infinity - 1\<close> is
  \<open>Infinity\<close>.
\<close>

definition indexBelowLimit :: "nat \<Rightarrow> jsnumber \<Rightarrow> bool" where
  "indexBelowLimit index queryLimit =
     (case queryLimit of
        Finite q \<Rightarrow> of_nat index < q - 1
      | PosInfinity \<Rightarrow> True
      | NegInfinity \<Rightarrow> False
      | NaN \<Rightarrow> False)"

text \<open>\<open>xs.filter( ( item, index ) => index < queryLimit - 1 )\<close>, the index counted from \<open>i\<close>.\<close>

fun filterIndex :: "jsnumber \<Rightarrow> nat \<Rightarrow> 'a list \<Rightarrow> 'a list" where
  "filterIndex queryLimit i [] = []"
| "filterIndex queryLimit i (x # xs) =
     (if indexBelowLimit i queryLimit then x # filterIndex queryLimit (Suc i) xs
      else filterIndex queryLimit (Suc i) xs)"

text \<open>
  The feed function returned by \<open>getQueryEmojiFn( queryLimit )\<close>, applied to a query.
\<close>

definition getQueryEmojiFn ::
  "EmojiUtils \<Rightarrow> Database \<Rightarrow> jsnumber \<Rightarrow> jsstring \<Rightarrow> error + MentionFeedObjectItem list"
where
  "getQueryEmojiFn u emojiDatabase queryLimit searchQuery =
     (case getEmojiBySearchQuery emojiDatabase searchQuery of
        Inl e \<Rightarrow> Inl e
      | Inr queryResult \<Rightarrow>
          (case mapFeed u queryResult of
             Inl e \<Rightarrow> Inl e
           | Inr processedQuery \<Rightarrow>
               Inr (filterIndex queryLimit 0 processedQuery @
                    [\<lparr>item_id = getShowAllEmojiId u, item_text = None\<rparr>])))"

section \<open>Example data\<close>

text \<open>
  A small database: group 0 holds the grinning face, group 1 the waving hand with two
  skin tones (stored darker first), group 2 the handshake, whose first skin shows two
  tones and whose second is of tone 1; every other group fails to load. The search knows
  four queries and rejects every other one.
\<close>

definition grinningFace :: NativeEmoji where
  "grinningFace =
     \<lparr>annotation = ascii ''grinning face'', unicode = [0xD83D, 0xDE00], skins = None\<rparr>"

definition wavingHand :: NativeEmoji where
  "wavingHand =
     \<lparr>annotation = ascii ''waving hand'', unicode = [0xD83D, 0xDC4B],
      skins = Some [\<lparr>tone = ToneNumber 2, skin_unicode = [0xD83D, 0xDC4B, 0xD83C, 0xDFFC]\<rparr>,
                    \<lparr>tone = ToneNumber 1, skin_unicode = [0xD83D, 0xDC4B, 0xD83C, 0xDFFB]\<rparr>]\<rparr>"

definition handshake :: NativeEmoji where
  "handshake =
     \<lparr>annotation = ascii ''handshake'', unicode = [0xD83E, 0xDD1D],
      skins = Some [\<lparr>tone = ToneArray [2, 3],
                     skin_unicode = [0xD83E, 0xDEF1, 0xD83C, 0xDFFC, 0x200D,
                                     0xD83E, 0xDEF2, 0xD83C, 0xDFFD]\<rparr>,
                    \<lparr>tone = ToneNumber 1, skin_unicode = [0xD83E, 0xDD1D, 0xD83C, 0xDFFB]\<rparr>]\<rparr>"

definition watermelon :: NativeEmoji where
  "watermelon =
     \<lparr>annotation = ascii ''watermelon'', unicode = [0xD83C, 0xDF49], skins = None\<rparr>"

definition exampleDatabase :: Database where
  "exampleDatabase =
     \<lparr>getEmojiByGroup = (\<lambda>databaseId.
        if databaseId = 0 then Inr [grinningFace]
        else if databaseId = 1 then Inr [wavingHand]
        else if databaseId = 2 then Inr [handshake]
        else Inl DatabaseError),
      getEmojiBySearchQuery = (\<lambda>q.
        if q = ascii ''gr'' then Inr [Native grinningFace]
        else if q = ascii ''wa'' then Inr [Native watermelon, Native wavingHand, Custom (ascii ''wax'')]
        else if q = ascii ''ha'' then Inr [Native wavingHand, Native grinningFace, Native watermelon]
        else if q = ascii ''zz'' then Inr []
        else Inl DatabaseError)\<rparr>"

text \<open>The picker after groups 0 and 1 were loaded from that database.\<close>

definition examplePicker :: EmojiPicker where
  "examplePicker =
     \<lparr>p_emojis =
        [ascii ''grinning face'' \<mapsto> [[0xD83D, 0xDE00]],
         ascii ''waving hand'' \<mapsto>
           [[0xD83D, 0xDC4B], [0xD83D, 0xDC4B, 0xD83C, 0xDFFB], [0xD83D, 0xDC4B, 0xD83C, 0xDFFC]]],
      p_emojiGroups =
        [\<lparr>title = ascii ''Smileys & Expressions'', exampleEmoji = [0xD83D, 0xDE00],
          items = [\<lparr>name = ascii ''grinning face'', emojis = [[0xD83D, 0xDE00]]\<rparr>]\<rparr>,
         \<lparr>title = ascii ''Gestures & People'', exampleEmoji = [0xD83D, 0xDC4B],
          items = [\<lparr>name = ascii ''waving hand'',
                    emojis = [[0xD83D, 0xDC4B], [0xD83D, 0xDC4B, 0xD83C, 0xDFFB],
                              [0xD83D, 0xDC4B, 0xD83C, 0xDFFC]]\<rparr>]\<rparr>],
      p_emojiPickerView = True,
      p_selectedSkinTone = 0,
      p_searchQuery = None\<rparr>"

definition exampleSystem :: PickerSystem where
  "exampleSystem =
     \<lparr>picker = examplePicker,
      panel = \<lparr>tiles = [], currentCategoryName = ascii ''Smileys & Expressions'',
               categoriesEnabled = True\<rparr>,
      inflight = [], unhandled = [], effects = []\<rparr>"

text \<open>Example helpers: an id is put between colons, ASCII letters are lower-cased.\<close>

definition exampleUtils :: EmojiUtils where
  "exampleUtils =
     \<lparr>formatEmojiId = (\<lambda>i. ascii '':'' @ i @ ascii '':''),
      getShowAllEmojiId = ascii '':__SHOW_ALL_EMOJI__:'',
      toLocaleLowerCase = map (\<lambda>c. if 0x41 \<le> c \<and> c \<le> 0x5A then c + 0x20 else c)\<rparr>"

section \<open>Auxiliary facts\<close>

lemma addTilesToGrid_append:
  "addTilesToGrid p v its = v\<lparr>tiles := tiles v @ map (itemTile p) its\<rparr>"
  by (induction its arbitrary: v) simp_all

lemma filterBoolean_filter:
  "filterBoolean (map f xs) = map (\<lambda>x. the (f x)) (filter (\<lambda>x. f x \<noteq> None) xs)"
proof (induction xs)
  case Nil
  show ?case by simp
next
  case (Cons x xs)
  then show ?case by (cases "f x") simp_all
qed

lemma shortQuery_iff:
  "shortQuery None" "shortQuery (Some q) \<longleftrightarrow> length q < 2"
  by (auto simp: shortQuery_def)

lemma updateGrid_browsing:
  assumes "shortQuery (p_searchQuery p)"
    and "find (\<lambda>g. title g = currentCategoryName v) (p_emojiGroups p) = Some g"
  shows "updateGrid p v =
    (v\<lparr>tiles := map (itemTile p) (items g), categoriesEnabled := True\<rparr>, Completed)"
  using assms by (simp add: updateGrid_def getEmojisForCategory_def addTilesToGrid_append)

lemma updateGrid_no_group:
  assumes "shortQuery (p_searchQuery p)"
    and "find (\<lambda>g. title g = currentCategoryName v) (p_emojiGroups p) = None"
  shows "updateGrid p v = (v\<lparr>tiles := []\<rparr>, Threw TypeError)"
  using assms by (simp add: updateGrid_def getEmojisForCategory_def)

lemma updateGrid_searching:
  assumes "p_searchQuery p = Some q" and "2 \<le> length q"
  shows "updateGrid p v = (v\<lparr>tiles := []\<rparr>, Awaiting q)"
  using assms by (simp add: updateGrid_def shortQuery_iff)

lemma updateGrid_resumed_resolved:
  "updateGrid_resumed p v (Inr queryResult) =
     (v\<lparr>tiles := tiles v @ resultTiles p queryResult, categoriesEnabled := False\<rparr>, Completed)"
  by (simp add: updateGrid_resumed_def addTilesToGrid_append resultTiles_def)

lemma updateGrid_resumed_rejected:
  "updateGrid_resumed p v (Inl e) = (v, Threw e)"
  by (simp add: updateGrid_resumed_def)

lemma itemTile_frame [simp]: "itemTile (p\<lparr>p_searchQuery := x\<rparr>) = itemTile p"
  by (rule ext) (simp add: itemTile_def)

lemma queriedTile_frame [simp]: "queriedTile (p\<lparr>p_searchQuery := x\<rparr>) = queriedTile p"
  by (rule ext) (simp add: queriedTile_def)

lemma resultTiles_frame [simp]:
  "resultTiles (p\<lparr>p_searchQuery := x\<rparr>) r = resultTiles p r"
  by (simp add: resultTiles_def)

lemma step_SearchInput_long:
  assumes "2 \<le> length q"
  shows "step db s (SearchInput q) =
    s\<lparr>picker := (picker s)\<lparr>p_searchQuery := Some q\<rparr>, panel := (panel s)\<lparr>tiles := []\<rparr>,
      inflight := inflight s @ [q]\<rparr>"
  using assms by (simp add: updateGrid_searching afterUpdate_def)

lemma step_SearchInput_short:
  assumes "length q < 2"
  shows "inflight (step db s (SearchInput q)) = inflight s"
    and "picker (step db s (SearchInput q)) = (picker s)\<lparr>p_searchQuery := Some q\<rparr>"
  using assms
  by (cases "getEmojisForCategory ((picker s)\<lparr>p_searchQuery := Some q\<rparr>)
        (currentCategoryName (panel s))";
      simp add: updateGrid_def shortQuery_iff afterUpdate_def Let_def)+

lemma step_LookupSettles_resolved:
  assumes "i < length (inflight s)" and "getEmojiBySearchQuery db (inflight s ! i) = Inr r"
  shows "step db s (LookupSettles i) =
    s\<lparr>inflight := removeAt i (inflight s),
      panel := (panel s)\<lparr>tiles := tiles (panel s) @ resultTiles (picker s) r,
                         categoriesEnabled := False\<rparr>\<rparr>"
  using assms by (simp add: updateGrid_resumed_resolved afterUpdate_def)

lemma step_LookupSettles_rejected:
  assumes "i < length (inflight s)" and "getEmojiBySearchQuery db (inflight s ! i) = Inl e"
  shows "step db s (LookupSettles i) =
    s\<lparr>inflight := removeAt i (inflight s), unhandled := unhandled s @ [e]\<rparr>"
  using assms by (simp add: updateGrid_resumed_rejected afterUpdate_def)

declare step.simps [simp del]

lemmas run_example_simps =
  step.simps afterUpdate_def updateGrid_def shortQuery_def updateGrid_resumed_def
  exampleSystem_def examplePicker_def exampleDatabase_def ascii_def queriedTile_def queriedName_def
  itemTile_def tileEmoji_def js_or_def js_index_def createTile_def removeAt_def wavingHand_def
  watermelon_def grinningFace_def getEmojisForCategory_def Let_def resultTiles_def

lemma example_queries:
  "getEmojiBySearchQuery exampleDatabase (ascii ''wa'') =
     Inr [Native watermelon, Native wavingHand, Custom (ascii ''wax'')]"
  "getEmojiBySearchQuery exampleDatabase (ascii ''gr'') = Inr [Native grinningFace]"
  "getEmojiBySearchQuery exampleDatabase (ascii ''ha'') =
     Inr [Native wavingHand, Native grinningFace, Native watermelon]"
  "getEmojiBySearchQuery exampleDatabase (ascii ''zz'') = Inr []"
  "getEmojiBySearchQuery exampleDatabase (ascii ''ab'') = Inl DatabaseError"
  by (simp_all add: exampleDatabase_def ascii_def)

lemma itemTile_tone_frame [simp]:
  "itemTile (p\<lparr>p_selectedSkinTone := k\<rparr>) item = \<lparr>tile_emoji = tileEmoji k item, tile_name = name item\<rparr>"
  by (simp add: itemTile_def createTile_def)

lemma queriedTile_tone_frame [simp]: "queriedTile (p\<lparr>p_selectedSkinTone := k\<rparr>) = queriedTile p"
  by (rule ext) (simp add: queriedTile_def)

lemma find_None_title:
  "find (\<lambda>g. title g = c) gs = None \<longleftrightarrow> (\<forall>g\<in>set gs. title g \<noteq> c)"
  by (auto simp: find_None_iff)

lemma resultTiles_filter:
  "resultTiles p queryResult =
     map (\<lambda>e. \<lparr>tile_emoji = tileEmoji (p_selectedSkinTone p)
                   \<lparr>name = queriedName e, emojis = the (p_emojis p (queriedName e))\<rparr>,
                tile_name = queriedName e\<rparr>)
       (filter (\<lambda>e. queriedName e \<in> dom (p_emojis p)) queryResult)"
proof -
  have f: "(\<exists>y. queriedTile p e = Some y) = (queriedName e \<in> dom (p_emojis p))" for e
    by (auto simp: queriedTile_def Let_def split: option.splits)
  have "map (itemTile p) (filterBoolean (map (queriedTile p) queryResult)) =
     map (\<lambda>e. itemTile p (the (queriedTile p e)))
       (filter (\<lambda>e. queriedName e \<in> dom (p_emojis p)) queryResult)"
    by (simp add: filterBoolean_filter f o_def)
  also have "\<dots> = map (\<lambda>e. \<lparr>tile_emoji = tileEmoji (p_selectedSkinTone p)
                   \<lparr>name = queriedName e, emojis = the (p_emojis p (queriedName e))\<rparr>,
                tile_name = queriedName e\<rparr>)
       (filter (\<lambda>e. queriedName e \<in> dom (p_emojis p)) queryResult)"
    by (rule map_cong) (auto simp: queriedTile_def itemTile_def createTile_def Let_def)
  finally show ?thesis by (simp add: resultTiles_def)
qed

lemma step_CategoryChange_searching:
  assumes "p_searchQuery (picker s) = Some q" and "2 \<le> length q"
  shows "step db s (CategoryChange c) =
    s\<lparr>panel := (panel s)\<lparr>currentCategoryName := c, tiles := []\<rparr>, inflight := inflight s @ [q]\<rparr>"
  using assms by (simp add: step.simps updateGrid_searching afterUpdate_def)

lemma step_ToneChange_searching:
  assumes "p_searchQuery (picker s) = Some q" and "2 \<le> length q"
  shows "step db s (ToneChange k) =
    s\<lparr>picker := (picker s)\<lparr>p_selectedSkinTone := k\<rparr>, panel := (panel s)\<lparr>tiles := []\<rparr>,
      inflight := inflight s @ [q]\<rparr>"
  using assms by (simp add: step.simps updateGrid_searching afterUpdate_def)

lemma itemTile_eq:
  "itemTile p = (\<lambda>item. \<lparr>tile_emoji = tileEmoji (p_selectedSkinTone p) item, tile_name = name item\<rparr>)"
  by (rule ext) (simp add: itemTile_def createTile_def)

lemma mapFeed_Native:
  "mapFeed u (map Native natives) =
     Inr (map (\<lambda>e. \<lparr>item_id = formatEmojiId u (toLocaleLowerCase u (replaceSeparators (annotation e))),
                     item_text = Some (unicode e)\<rparr>) natives)"
  by (induction natives) (simp_all add: feedItem_def)


text \<open>When every tone is a number the comparison is the difference of the numbers.\<close>

lemma sortCompare_numeric:
  assumes "toNumber (tone a) = Some x" and "toNumber (tone b) = Some y"
  shows "sortCompare compareTone a b = x - y"
  using assms by (simp add: sortCompare_def compareTone_def)

lemma consistent_numeric:
  assumes "\<forall>s\<in>set sk. toNumber (tone s) \<noteq> None"
  shows "consistentComparator (sortCompare compareTone) sk"
  unfolding consistentComparator_def
proof (intro ballI)
  fix a b d assume "a \<in> set sk" "b \<in> set sk" "d \<in> set sk"
  with assms obtain x y z where
    "toNumber (tone a) = Some x" "toNumber (tone b) = Some y" "toNumber (tone d) = Some z"
    by fastforce
  then show "sortCompare compareTone a a = 0 \<and>
        (sortCompare compareTone a b = 0 \<longrightarrow> sortCompare compareTone b a = 0) \<and>
        (sortCompare compareTone a b = 0 \<and> sortCompare compareTone b d = 0 \<longrightarrow>
           sortCompare compareTone a d = 0) \<and>
        (sortCompare compareTone a b < 0 \<and> sortCompare compareTone b d < 0 \<longrightarrow>
           sortCompare compareTone a d < 0) \<and>
        (sortCompare compareTone a b > 0 \<and> sortCompare compareTone b d > 0 \<longrightarrow>
           sortCompare compareTone a d > 0)"
    by (simp add: sortCompare_numeric)
qed

lemma insertSorted_numeric:
  assumes "\<forall>s\<in>set (x # ys). toNumber (tone s) \<noteq> None"
  shows "insertSorted (sortCompare compareTone) x ys =
    insort_key (\<lambda>s. the (toNumber (tone s))) x ys"
  using assms
proof (induction ys)
  case Nil
  show ?case by simp
next
  case (Cons y ys)
  then obtain a b where ab: "toNumber (tone x) = Some a" "toNumber (tone y) = Some b"
    by fastforce
  from Cons have "insertSorted (sortCompare compareTone) x ys =
    insort_key (\<lambda>s. the (toNumber (tone s))) x ys" by simp
  with ab show ?case by (simp add: sortCompare_numeric)
qed

lemma stableSort_numeric:
  assumes "\<forall>s\<in>set sk. toNumber (tone s) \<noteq> None"
  shows "stableSort (sortCompare compareTone) sk = sort_key (\<lambda>s. the (toNumber (tone s))) sk"
  using assms
proof (induction sk)
  case Nil
  show ?case by (simp add: stableSort_def)
next
  case (Cons x sk)
  then have ih: "foldr (insertSorted (sortCompare compareTone)) sk [] =
      sort_key (\<lambda>s. the (toNumber (tone s))) sk"
    by (simp add: stableSort_def)
  from Cons.prems have "\<forall>s\<in>set (x # sort_key (\<lambda>s. the (toNumber (tone s))) sk).
      toNumber (tone s) \<noteq> None" by simp
  then show ?case
    by (simp add: stableSort_def ih insertSorted_numeric sort_key_def)
qed

lemma arraySort_numeric:
  assumes "\<forall>s\<in>set sk. toNumber (tone s) \<noteq> None"
  shows "arraySort impl compareTone sk = sort_key (\<lambda>s. the (toNumber (tone s))) sk"
  using assms by (simp add: arraySort_def consistent_numeric stableSort_numeric)



lemma indexBelowLimit_Finite:
  "indexBelowLimit i (Finite q) \<longleftrightarrow> i < nat \<lceil>q - 1\<rceil>"
proof -
  have "int i < \<lceil>q - 1\<rceil> \<longleftrightarrow> of_int (int i) < q - 1"
    by (rule less_ceiling_iff)
  moreover have "i < nat \<lceil>q - 1\<rceil> \<longleftrightarrow> int i < \<lceil>q - 1\<rceil>"
    by (rule zless_nat_eq_int_zless)
  ultimately show ?thesis by (simp add: indexBelowLimit_def)
qed

lemma filterIndex_take:
  "filterIndex (Finite q) i xs = take (nat \<lceil>q - 1\<rceil> - i) xs"
proof (induction xs arbitrary: i)
  case Nil
  show ?case by simp
next
  case (Cons x xs)
  show ?case
  proof (cases "i < nat \<lceil>q - 1\<rceil>")
    case True
    then have "nat \<lceil>q - 1\<rceil> - i = Suc (nat \<lceil>q - 1\<rceil> - Suc i)" by linarith
    with True Cons show ?thesis by (simp add: indexBelowLimit_Finite)
  next
    case False
    then have "nat \<lceil>q - 1\<rceil> - i = 0" "nat \<lceil>q - 1\<rceil> - Suc i = 0" by linarith+
    with False Cons show ?thesis by (simp add: indexBelowLimit_Finite)
  qed
qed

lemma filterIndex_PosInfinity: "filterIndex PosInfinity i xs = xs"
  by (induction xs arbitrary: i) (simp_all add: indexBelowLimit_def)

lemma filterIndex_none:
  "filterIndex NaN i xs = []" "filterIndex NegInfinity i xs = []"
  by (induction xs arbitrary: i) (simp_all add: indexBelowLimit_def)

lemma examplePicker_loaded:
  "(let p0 = \<lparr>p_emojis = Map.empty, p_emojiGroups = [], p_emojiPickerView = True,
              p_selectedSkinTone = 0, p_searchQuery = None\<rparr>;
        (p1, g1) = getEmojiGroup impl exampleDatabase p0 0 (ascii ''Smileys & Expressions'')
                     [0xD83D, 0xDE00];
        (p2, g2) = getEmojiGroup impl exampleDatabase p1 1 (ascii ''Gestures & People'')
                     [0xD83D, 0xDC4B]
    in p2\<lparr>p_emojiGroups := [projr g1, projr g2]\<rparr>) = examplePicker"
  by (simp add: getEmojiGroup_def exampleDatabase_def examplePicker_def emojiItem_def
      grinningFace_def wavingHand_def arraySort_numeric)



lemma tileEmoji_explicit:
  "tileEmoji k item =
     (if k < length (emojis item) \<and> emojis item ! k \<noteq> [] then Some (emojis item ! k)
      else if emojis item = [] then None else Some (emojis item ! 0))"
  by (auto simp: tileEmoji_def js_or_def js_index_def)

lemma itemTile_explicit:
  "itemTile p =
     (\<lambda>item. \<lparr>tile_emoji =
                  (if p_selectedSkinTone p < length (emojis item) \<and>
                      emojis item ! p_selectedSkinTone p \<noteq> []
                   then Some (emojis item ! p_selectedSkinTone p)
                   else if emojis item = [] then None else Some (emojis item ! 0)),
                tile_name = name item\<rparr>)"
  by (rule ext) (simp add: itemTile_def createTile_def tileEmoji_explicit)

lemma resultTiles_explicit:
  "resultTiles p r =
     map (\<lambda>e. (\<lambda>item. \<lparr>tile_emoji =
                  (if p_selectedSkinTone p < length (emojis item) \<and>
                      emojis item ! p_selectedSkinTone p \<noteq> []
                   then Some (emojis item ! p_selectedSkinTone p)
                   else if emojis item = [] then None else Some (emojis item ! 0)),
                tile_name = name item\<rparr>)
               \<lparr>name = queriedName e, emojis = the (p_emojis p (queriedName e))\<rparr>)
       (filter (\<lambda>e. queriedName e \<in> dom (p_emojis p)) r)"
  unfolding resultTiles_filter by (simp add: tileEmoji_explicit)

lemma step_SearchInput_browsing:
  assumes "length q < 2"
    and "find (\<lambda>g. title g = currentCategoryName (panel s)) (p_emojiGroups (picker s)) = Some g"
  shows "step db s (SearchInput q) =
    s\<lparr>picker := (picker s)\<lparr>p_searchQuery := Some q\<rparr>,
      panel := (panel s)\<lparr>tiles := map (itemTile (picker s)) (items g),
                         categoriesEnabled := True\<rparr>\<rparr>"
proof -
  let ?p = "(picker s)\<lparr>p_searchQuery := Some q\<rparr>"
  from assms have "shortQuery (p_searchQuery ?p)" by (simp add: shortQuery_iff)
  moreover from assms
  have "find (\<lambda>g. title g = currentCategoryName (panel s)) (p_emojiGroups ?p) = Some g"
    by simp
  ultimately have "updateGrid ?p (panel s) =
      ((panel s)\<lparr>tiles := map (itemTile ?p) (items g), categoriesEnabled := True\<rparr>, Completed)"
    by (rule updateGrid_browsing)
  then show ?thesis by (simp add: step.simps afterUpdate_def)
qed

section \<open>Loading a group\<close>




section \<open>Overlapping searches\<close>

text \<open>
  C1 (as the code has it): \<open>_updateGrid\<close> clears the grid when it is called and appends
  the tiles of its lookup when the lookup settles; nothing compares the settled lookup with
  the current query. With no lookup in flight before, two searches of at least two
  characters issued one after the other leave, once both have resolved, the tiles of both
  results in the order of arrival. When the first text is shorter than two characters it
  starts no lookup, only the second search is in flight, and the final tiles are those of
  the second search.
\<close>

theorem overlapping_searches_append:
  "(inflight s = [] \<and> 2 \<le> length q1 \<and> 2 \<le> length q2 \<and>
    getEmojiBySearchQuery db q1 = Inr r1 \<and> getEmojiBySearchQuery db q2 = Inr r2 \<longrightarrow>
      tiles (panel (run db s [SearchInput q1, SearchInput q2, LookupSettles 0, LookupSettles 0])) =
        resultTiles (picker s) r1 @ resultTiles (picker s) r2 \<and>
      tiles (panel (run db s [SearchInput q1, SearchInput q2, LookupSettles 1, LookupSettles 0])) =
        resultTiles (picker s) r2 @ resultTiles (picker s) r1) \<and>
   (inflight s = [] \<and> length q1 < 2 \<and> 2 \<le> length q2 \<and> getEmojiBySearchQuery db q2 = Inr r2 \<longrightarrow>
      inflight (run db s [SearchInput q1, SearchInput q2]) = [q2] \<and>
      tiles (panel (run db s [SearchInput q1, SearchInput q2, LookupSettles 0])) =
        resultTiles (picker s) r2)"
proof (intro conjI impI)
  assume a: "inflight s = [] \<and> 2 \<le> length q1 \<and> 2 \<le> length q2 \<and>
    getEmojiBySearchQuery db q1 = Inr r1 \<and> getEmojiBySearchQuery db q2 = Inr r2"
  show "tiles (panel (run db s [SearchInput q1, SearchInput q2, LookupSettles 0, LookupSettles 0])) =
        resultTiles (picker s) r1 @ resultTiles (picker s) r2"
    using a by (simp add: step_SearchInput_long step_LookupSettles_resolved removeAt_def)
  show "tiles (panel (run db s [SearchInput q1, SearchInput q2, LookupSettles 1, LookupSettles 0])) =
        resultTiles (picker s) r2 @ resultTiles (picker s) r1"
    using a by (simp add: step_SearchInput_long step_LookupSettles_resolved removeAt_def)
next
  assume b: "inflight s = [] \<and> length q1 < 2 \<and> 2 \<le> length q2 \<and> getEmojiBySearchQuery db q2 = Inr r2"
  define s1 where "s1 = step db s (SearchInput q1)"
  have i1: "inflight s1 = []" and p1: "resultTiles (picker s1) r2 = resultTiles (picker s) r2"
    using b by (simp_all add: s1_def step_SearchInput_short)
  have r: "run db s (SearchInput q1 # es) = run db s1 es" for es by (simp add: s1_def)
  show "inflight (run db s [SearchInput q1, SearchInput q2]) = [q2]"
    unfolding r using b i1 by (simp add: step_SearchInput_long)
  show "tiles (panel (run db s [SearchInput q1, SearchInput q2, LookupSettles 0])) =
        resultTiles (picker s) r2"
    unfolding r using b i1 p1 by (simp add: step_SearchInput_long step_LookupSettles_resolved removeAt_def)
qed

theorem overlapping_searches_append_witness:
  "tiles (panel (run exampleDatabase exampleSystem
      [SearchInput (ascii ''wa''), SearchInput (ascii ''gr''), LookupSettles 0, LookupSettles 0])) =
     [\<lparr>tile_emoji = Some [0xD83D, 0xDC4B], tile_name = ascii ''waving hand''\<rparr>,
      \<lparr>tile_emoji = Some [0xD83D, 0xDE00], tile_name = ascii ''grinning face''\<rparr>] \<and>
   tiles (panel (run exampleDatabase exampleSystem
      [SearchInput (ascii ''wa''), SearchInput (ascii ''gr''), LookupSettles 1, LookupSettles 0])) =
     [\<lparr>tile_emoji = Some [0xD83D, 0xDE00], tile_name = ascii ''grinning face''\<rparr>,
      \<lparr>tile_emoji = Some [0xD83D, 0xDC4B], tile_name = ascii ''waving hand''\<rparr>] \<and>
   tiles (panel (run exampleDatabase exampleSystem
      [SearchInput (ascii ''a''), SearchInput (ascii ''wa''), LookupSettles 0])) =
     [\<lparr>tile_emoji = Some [0xD83D, 0xDC4B], tile_name = ascii ''waving hand''\<rparr>]"
proof -
  have i: "inflight exampleSystem = []" by (simp add: exampleSystem_def)
  have l: "2 \<le> length (ascii ''wa'')" "2 \<le> length (ascii ''gr'')" "length (ascii ''a'') < 2"
    by (simp_all add: ascii_def)
  have wa: "resultTiles (picker exampleSystem)
      [Native watermelon, Native wavingHand, Custom (ascii ''wax'')] =
     [\<lparr>tile_emoji = Some [0xD83D, 0xDC4B], tile_name = ascii ''waving hand''\<rparr>]"
    by (simp add: run_example_simps)
  have gr: "resultTiles (picker exampleSystem) [Native grinningFace] =
     [\<lparr>tile_emoji = Some [0xD83D, 0xDE00], tile_name = ascii ''grinning face''\<rparr>]"
    by (simp add: run_example_simps)
  note T = overlapping_searches_append [where s = exampleSystem and db = exampleDatabase and
      ?q2.0 = "ascii ''wa''" and ?r2.0 = "[Native watermelon, Native wavingHand, Custom (ascii ''wax'')]"]
  note U = overlapping_searches_append [where s = exampleSystem and db = exampleDatabase and
      ?q1.0 = "ascii ''wa''" and ?r1.0 = "[Native watermelon, Native wavingHand, Custom (ascii ''wax'')]" and
      ?q2.0 = "ascii ''gr''" and ?r2.0 = "[Native grinningFace]"]
  from U i l example_queries wa gr
    T [where ?q1.0 = "ascii ''a''"]
  show ?thesis by simp
qed

text \<open>
  The claim of C1 fails: the user types \<open>wa\<close> and then \<open>zz\<close>, a query with no match.
  In either order of arrival the final tiles are the tiles of the superseded query
  \<open>wa\<close>, the same as if \<open>wa\<close> had been the only search.
\<close>

theorem overlapping_searches_counterexample:
  "getEmojiBySearchQuery exampleDatabase (ascii ''zz'') = Inr [] \<and>
   p_searchQuery (picker (run exampleDatabase exampleSystem
      [SearchInput (ascii ''wa''), SearchInput (ascii ''zz''), LookupSettles 0, LookupSettles 0])) =
     Some (ascii ''zz'') \<and>
   tiles (panel (run exampleDatabase exampleSystem
      [SearchInput (ascii ''wa''), SearchInput (ascii ''zz''), LookupSettles 0, LookupSettles 0])) =
     [\<lparr>tile_emoji = Some [0xD83D, 0xDC4B], tile_name = ascii ''waving hand''\<rparr>] \<and>
   tiles (panel (run exampleDatabase exampleSystem
      [SearchInput (ascii ''wa''), SearchInput (ascii ''zz''), LookupSettles 1, LookupSettles 0])) =
     [\<lparr>tile_emoji = Some [0xD83D, 0xDC4B], tile_name = ascii ''waving hand''\<rparr>] \<and>
   tiles (panel (run exampleDatabase exampleSystem [SearchInput (ascii ''wa''), LookupSettles 0])) =
     [\<lparr>tile_emoji = Some [0xD83D, 0xDC4B], tile_name = ascii ''waving hand''\<rparr>]"
  by (simp add: run_example_simps)

section \<open>A failing database\<close>

text \<open>
  C2 (as the code has it): no failure of the database is caught. A rejected group lookup
  rejects \<open>_getEmojiGroup\<close>, which returns no group and leaves the picker as it was. A
  rejected search rejects \<open>_updateGrid\<close> at its \<open>await\<close>; with no other lookup in
  flight, a search of at least two characters whose lookup is rejected leaves the grid
  empty (as cleared), the picker unchanged but for the search text, and one more unhandled
  rejection.
\<close>

theorem database_failure_propagates:
  "(getEmojiByGroup db databaseId = Inl e \<longrightarrow>
      getEmojiGroup impl db p databaseId ttl example = (p, Inl e)) \<and>
   updateGrid_resumed p v (Inl e) = (v, Threw e) \<and>
   (inflight s = [] \<and> 2 \<le> length q \<and> getEmojiBySearchQuery db q = Inl e \<longrightarrow>
      run db s [SearchInput q, LookupSettles 0] =
        s\<lparr>picker := (picker s)\<lparr>p_searchQuery := Some q\<rparr>,
          panel := (panel s)\<lparr>tiles := []\<rparr>,
          unhandled := unhandled s @ [e]\<rparr>)"
  by (simp add: getEmojiGroup_def updateGrid_resumed_rejected step_SearchInput_long
      step_LookupSettles_rejected removeAt_def)

theorem database_failure_propagates_witness:
  "getEmojiGroup (\<lambda>sk. sk) exampleDatabase examplePicker 9 (ascii ''Flags'') [0xD83C, 0xDFC1] =
     (examplePicker, Inl DatabaseError) \<and>
   run exampleDatabase exampleSystem [SearchInput (ascii ''ab''), LookupSettles 0] =
     exampleSystem
       \<lparr>picker := (picker exampleSystem)\<lparr>p_searchQuery := Some (ascii ''ab'')\<rparr>,
        panel := (panel exampleSystem)\<lparr>tiles := []\<rparr>,
        unhandled := unhandled exampleSystem @ [DatabaseError]\<rparr>"
proof -
  have g: "getEmojiByGroup exampleDatabase 9 = Inl DatabaseError"
    by (simp add: exampleDatabase_def)
  have i: "inflight exampleSystem = []" by (simp add: exampleSystem_def)
  have l: "2 \<le> length (ascii ''ab'')" by (simp add: ascii_def)
  from g i l example_queries(5)
    database_failure_propagates [where db = exampleDatabase and databaseId = 9 and
      e = DatabaseError and s = exampleSystem and q = "ascii ''ab''" and p = examplePicker]
  show ?thesis by blast
qed

text \<open>
  The claim of C2 fails: the load of group 9 rejects instead of giving an empty group, and
  the rejected search of \<open>ab\<close> ends as an unhandled rejection.
\<close>

theorem database_failure_counterexample:
  "getEmojiByGroup exampleDatabase 9 = Inl DatabaseError \<and>
   getEmojiGroup (\<lambda>sk. sk) exampleDatabase examplePicker 9 (ascii ''Flags'') [0xD83C, 0xDFC1] =
     (examplePicker, Inl DatabaseError) \<and>
   getEmojiBySearchQuery exampleDatabase (ascii ''ab'') = Inl DatabaseError \<and>
   unhandled (run exampleDatabase exampleSystem [SearchInput (ascii ''ab''), LookupSettles 0]) =
     [DatabaseError]"
  by (simp add: run_example_simps getEmojiGroup_def)

section \<open>Activating a tile\<close>

text \<open>
  C3 (as the code has it): the listener of \<open>execute\<close> never consults the catalog or the
  grid. For every event, whatever its name, it asks the editor to insert the glyph the
  event carries and then hides the panel: the view is removed from the balloon when there
  is one, the editing view is focused, the search query becomes the empty string. No error
  is raised.
\<close>

theorem onExecute_always_inserts:
  "onExecute p d =
     (p\<lparr>p_searchQuery := Some []\<rparr>,
      InsertText (exec_emoji d) #
        (if p_emojiPickerView p then [BalloonRemove] else []) @ [FocusEditingView]) \<and>
   (\<forall>m gs n. snd (onExecute (p\<lparr>p_emojis := m, p_emojiGroups := gs\<rparr>) (d\<lparr>exec_name := n\<rparr>)) =
      snd (onExecute p d)) \<and>
   step db s (TileExecute d) =
     s\<lparr>picker := (picker s)\<lparr>p_searchQuery := Some []\<rparr>,
       effects := effects s @ InsertText (exec_emoji d) #
         (if p_emojiPickerView (picker s) then [BalloonRemove] else []) @ [FocusEditingView]\<rparr>"
  by (simp add: onExecute_def hideUI_def step.simps)

text \<open>
  The claim of C3 fails: \<open>ghost\<close> is not in the catalog and no tile is shown, and the
  event still inserts its glyph.
\<close>

theorem onExecute_counterexample:
  "p_emojis (picker exampleSystem) (ascii ''ghost'') = None \<and>
   tiles (panel exampleSystem) = [] \<and>
   effects exampleSystem = [] \<and>
   effects (step exampleDatabase exampleSystem
      (TileExecute \<lparr>exec_name = ascii ''ghost'', exec_emoji = [0xD83D, 0xDC7B]\<rparr>)) =
     [InsertText [0xD83D, 0xDC7B], BalloonRemove, FocusEditingView]"
  by (simp add: run_example_simps onExecute_def hideUI_def)

section \<open>The tone of a tile\<close>

text \<open>
  C4 (as the code has it): a record with a non-empty glyph at the selected rank \<open>k\<close> is
  rendered with that glyph, whatever its other variants are. A record that lacks rank
  \<open>k\<close>, or whose glyph at rank \<open>k\<close> is the empty string, is rendered with what it has at
  rank 0 (\<open>undefined\<close> when it has nothing there), never with a nearer rank. The tile
  carries that glyph and the record's name.
\<close>

theorem tileEmoji_fallback:
  "(k < length (emojis item) \<and> emojis item ! k \<noteq> [] \<longrightarrow>
      tileEmoji k item = Some (emojis item ! k)) \<and>
   ((k < length (emojis item) \<longrightarrow> emojis item ! k = []) \<longrightarrow>
      tileEmoji k item = js_index (emojis item) 0) \<and>
   itemTile p item = \<lparr>tile_emoji = tileEmoji (p_selectedSkinTone p) item, tile_name = name item\<rparr>"
  by (auto simp: tileEmoji_def js_or_def js_index_def itemTile_def createTile_def)

theorem tileEmoji_fallback_witness:
  "tileEmoji 2 \<lparr>name = ascii ''waving hand'',
       emojis = [[0xD83D, 0xDC4B], [0xD83D, 0xDC4B, 0xD83C, 0xDFFB], [0xD83D, 0xDC4B, 0xD83C, 0xDFFC]]\<rparr> =
     Some [0xD83D, 0xDC4B, 0xD83C, 0xDFFC] \<and>
   tileEmoji 2 \<lparr>name = ascii ''thumbs up'',
       emojis = [[0xD83D, 0xDC4D], [0xD83D, 0xDC4D, 0xD83C, 0xDFFB]]\<rparr> =
     Some [0xD83D, 0xDC4D]"
  using tileEmoji_fallback [where k = 2 and item = "\<lparr>name = ascii ''waving hand'',
       emojis = [[0xD83D, 0xDC4B], [0xD83D, 0xDC4B, 0xD83C, 0xDFFB], [0xD83D, 0xDC4B, 0xD83C, 0xDFFC]]\<rparr>"]
    tileEmoji_fallback [where k = 2 and item = "\<lparr>name = ascii ''thumbs up'',
       emojis = [[0xD83D, 0xDC4D], [0xD83D, 0xDC4D, 0xD83C, 0xDFFB]]\<rparr>"]
  by (simp add: js_index_def)

text \<open>
  The claim of C4 fails on a record whose variant at rank 1 is the empty string: the
  record has rank 1, and the glyph of rank 0 is rendered.
\<close>

theorem tileEmoji_counterexample:
  "js_index (emojis \<lparr>name = ascii ''waving hand'', emojis = [[0xD83D, 0xDC4B], []]\<rparr>) 1 = Some [] \<and>
   tileEmoji 1 \<lparr>name = ascii ''waving hand'', emojis = [[0xD83D, 0xDC4B], []]\<rparr> =
     Some [0xD83D, 0xDC4B] \<and>
   tileEmoji 1 \<lparr>name = ascii ''waving hand'', emojis = [[0xD83D, 0xDC4B], []]\<rparr> \<noteq>
     js_index (emojis \<lparr>name = ascii ''waving hand'', emojis = [[0xD83D, 0xDC4B], []]\<rparr>) 1"
  by (simp add: tileEmoji_def js_or_def js_index_def)

section \<open>Browsing and searching\<close>

text \<open>
  C5 (as the code has it): when the search text is absent or shorter than two characters
  and the current category names a loaded group, \<open>_updateGrid\<close> completes at once with
  exactly the items of that group as tiles and with the categories enabled; each tile shows
  the record's glyph at the selected tone when the record has a non-empty one there, and
  its glyph at rank 0 otherwise. What the grid held before plays no part, and the same
  holds for the \<open>input\<close> event of such a text in any state of the picker. The grid stays
  so only while no earlier lookup is in flight: a lookup that resolves afterwards appends
  the tiles of its result behind the category's and disables the categories. When the
  search text has at least two characters, \<open>_updateGrid\<close> clears the grid and awaits the
  search of that text, and once the lookup resolves (none other being in flight) the tiles
  are those of the result's entries that the catalog knows, in the result's order, with
  the categories disabled.
\<close>

theorem length2_boundary:
  "let tile = (\<lambda>k item.
         \<lparr>tile_emoji =
            (if k < length (emojis item) \<and> emojis item ! k \<noteq> [] then Some (emojis item ! k)
             else if emojis item = [] then None else Some (emojis item ! 0)),
          tile_name = name item\<rparr>);
       found = (\<lambda>p r.
         map (\<lambda>e. tile (p_selectedSkinTone p)
                    \<lparr>name = queriedName e, emojis = the (p_emojis p (queriedName e))\<rparr>)
           (filter (\<lambda>e. queriedName e \<in> dom (p_emojis p)) r))
   in
   ((p_searchQuery p = None \<or> (\<exists>t. p_searchQuery p = Some t \<and> length t < 2)) \<and>
    find (\<lambda>g. title g = currentCategoryName v) (p_emojiGroups p) = Some g \<longrightarrow>
      updateGrid p v =
        (v\<lparr>tiles := map (tile (p_selectedSkinTone p)) (items g), categoriesEnabled := True\<rparr>,
         Completed)) \<and>
   (length q < 2 \<and>
    find (\<lambda>g. title g = currentCategoryName (panel s)) (p_emojiGroups (picker s)) = Some g \<longrightarrow>
      step db s (SearchInput q) =
        s\<lparr>picker := (picker s)\<lparr>p_searchQuery := Some q\<rparr>,
          panel := (panel s)\<lparr>tiles := map (tile (p_selectedSkinTone (picker s))) (items g),
                             categoriesEnabled := True\<rparr>\<rparr>) \<and>
   (length q < 2 \<and>
    find (\<lambda>g. title g = currentCategoryName (panel s)) (p_emojiGroups (picker s)) = Some g \<and>
    i < length (inflight s) \<and> getEmojiBySearchQuery db (inflight s ! i) = Inr r \<longrightarrow>
      panel (run db s [SearchInput q, LookupSettles i]) =
        (panel s)\<lparr>tiles := map (tile (p_selectedSkinTone (picker s))) (items g) @
                             found (picker s) r,
                    categoriesEnabled := False\<rparr>) \<and>
   (p_searchQuery p = Some q \<and> 2 \<le> length q \<longrightarrow> updateGrid p v = (v\<lparr>tiles := []\<rparr>, Awaiting q)) \<and>
   (inflight s = [] \<and> 2 \<le> length q \<and> getEmojiBySearchQuery db q = Inr r \<longrightarrow>
      run db s [SearchInput q, LookupSettles 0] =
        s\<lparr>picker := (picker s)\<lparr>p_searchQuery := Some q\<rparr>,
          panel := (panel s)\<lparr>tiles := found (picker s) r, categoriesEnabled := False\<rparr>\<rparr>)"
  unfolding Let_def
proof (intro conjI impI, goal_cases)
  case 1
  then have "shortQuery (p_searchQuery p)" by (auto simp: shortQuery_iff)
  with 1 have "updateGrid p v =
      (v\<lparr>tiles := map (itemTile p) (items g), categoriesEnabled := True\<rparr>, Completed)"
    by (simp add: updateGrid_browsing)
  then show ?case by (simp only: itemTile_explicit)
next
  case 2
  then have "step db s (SearchInput q) =
    s\<lparr>picker := (picker s)\<lparr>p_searchQuery := Some q\<rparr>,
      panel := (panel s)\<lparr>tiles := map (itemTile (picker s)) (items g),
                         categoriesEnabled := True\<rparr>\<rparr>"
    by (simp add: step_SearchInput_browsing)
  then show ?case by (simp only: itemTile_explicit)
next
  case 3
  then have s1: "step db s (SearchInput q) =
    s\<lparr>picker := (picker s)\<lparr>p_searchQuery := Some q\<rparr>,
      panel := (panel s)\<lparr>tiles := map (itemTile (picker s)) (items g),
                         categoriesEnabled := True\<rparr>\<rparr>"
    by (simp add: step_SearchInput_browsing)
  have "panel (run db s [SearchInput q, LookupSettles i]) =
      (panel s)\<lparr>tiles := map (itemTile (picker s)) (items g) @ resultTiles (picker s) r,
                 categoriesEnabled := False\<rparr>"
    using 3 by (simp add: s1 step_LookupSettles_resolved)
  then show ?case by (simp only: itemTile_explicit resultTiles_explicit)
next
  case 4
  then show ?case by (simp add: updateGrid_searching)
next
  case 5
  then have "run db s [SearchInput q, LookupSettles 0] =
        s\<lparr>picker := (picker s)\<lparr>p_searchQuery := Some q\<rparr>,
          panel := (panel s)\<lparr>tiles := resultTiles (picker s) r, categoriesEnabled := False\<rparr>\<rparr>"
    by (simp add: step_SearchInput_long step_LookupSettles_resolved removeAt_def)
  then show ?case by (simp only: resultTiles_explicit)
qed

theorem length2_boundary_witness:
  "updateGrid (examplePicker\<lparr>p_selectedSkinTone := 2\<rparr>)
     ((panel exampleSystem)\<lparr>currentCategoryName := ascii ''Gestures & People''\<rparr>) =
     ((panel exampleSystem)
        \<lparr>currentCategoryName := ascii ''Gestures & People'',
         tiles := [\<lparr>tile_emoji = Some [0xD83D, 0xDC4B, 0xD83C, 0xDFFC],
                    tile_name = ascii ''waving hand''\<rparr>],
         categoriesEnabled := True\<rparr>, Completed) \<and>
   tiles (panel (step exampleDatabase
      (exampleSystem\<lparr>picker := examplePicker\<lparr>p_selectedSkinTone := 2\<rparr>\<rparr>)
      (SearchInput (ascii ''w'')))) =
     [\<lparr>tile_emoji = Some [0xD83D, 0xDE00], tile_name = ascii ''grinning face''\<rparr>] \<and>
   panel (run exampleDatabase
      (exampleSystem\<lparr>picker := examplePicker\<lparr>p_selectedSkinTone := 2\<rparr>,
                     inflight := [ascii ''wa'']\<rparr>)
      [SearchInput (ascii ''w''), LookupSettles 0]) =
     (panel exampleSystem)
       \<lparr>tiles := [\<lparr>tile_emoji = Some [0xD83D, 0xDE00], tile_name = ascii ''grinning face''\<rparr>,
                  \<lparr>tile_emoji = Some [0xD83D, 0xDC4B, 0xD83C, 0xDFFC],
                    tile_name = ascii ''waving hand''\<rparr>],
        categoriesEnabled := False\<rparr> \<and>
   updateGrid (examplePicker\<lparr>p_searchQuery := Some (ascii ''ha'')\<rparr>) (panel exampleSystem) =
     ((panel exampleSystem)\<lparr>tiles := []\<rparr>, Awaiting (ascii ''ha'')) \<and>
   tiles (panel (run exampleDatabase
      (exampleSystem\<lparr>picker := examplePicker\<lparr>p_selectedSkinTone := 2\<rparr>\<rparr>)
      [SearchInput (ascii ''ha''), LookupSettles 0])) =
     [\<lparr>tile_emoji = Some [0xD83D, 0xDC4B, 0xD83C, 0xDFFC], tile_name = ascii ''waving hand''\<rparr>,
      \<lparr>tile_emoji = Some [0xD83D, 0xDE00], tile_name = ascii ''grinning face''\<rparr>]"
proof -
  let ?p = "examplePicker\<lparr>p_selectedSkinTone := 2\<rparr>"
  let ?v = "(panel exampleSystem)\<lparr>currentCategoryName := ascii ''Gestures & People''\<rparr>"
  let ?s = "exampleSystem\<lparr>picker := ?p\<rparr>"
  let ?t = "exampleSystem\<lparr>picker := ?p, inflight := [ascii ''wa'']\<rparr>"
  let ?g1 = "p_emojiGroups examplePicker ! 0"
  let ?g2 = "p_emojiGroups examplePicker ! 1"
  have n: "p_searchQuery ?p = None" by (simp add: examplePicker_def)
  have f2: "find (\<lambda>g. title g = currentCategoryName ?v) (p_emojiGroups ?p) = Some ?g2"
    by (simp add: exampleSystem_def examplePicker_def ascii_def)
  have f1: "find (\<lambda>g. title g = currentCategoryName (panel ?s)) (p_emojiGroups (picker ?s)) =
      Some ?g1"
    "find (\<lambda>g. title g = currentCategoryName (panel ?t)) (p_emojiGroups (picker ?t)) = Some ?g1"
    by (simp_all add: exampleSystem_def examplePicker_def ascii_def)
  have i: "inflight ?s = []" "0 < length (inflight ?t)"
    "getEmojiBySearchQuery exampleDatabase (inflight ?t ! 0) =
       Inr [Native watermelon, Native wavingHand, Custom (ascii ''wax'')]"
    by (simp_all add: exampleSystem_def example_queries)
  have l: "length (ascii ''w'') < 2" "2 \<le> length (ascii ''ha'')" by (simp_all add: ascii_def)
  have q: "p_searchQuery (examplePicker\<lparr>p_searchQuery := Some (ascii ''ha'')\<rparr>) =
      Some (ascii ''ha'')" by simp
  note T = length2_boundary [unfolded Let_def]
  note A = T [where p = ?p and v = ?v and g = ?g2, THEN conjunct1, THEN mp, OF conjI [OF disjI1 [OF n] f2]]
  note B = T [where s = ?s and q = "ascii ''w''" and g = ?g1 and db = exampleDatabase,
      THEN conjunct2, THEN conjunct1, THEN mp, OF conjI [OF l(1) f1(1)]]
  note C = T [where s = ?t and q = "ascii ''w''" and g = ?g1 and db = exampleDatabase and i = 0,
      THEN conjunct2, THEN conjunct2, THEN conjunct1, THEN mp,
      OF conjI [OF l(1) conjI [OF f1(2) conjI [OF i(2) i(3)]]]]
  note D = T [where p = "examplePicker\<lparr>p_searchQuery := Some (ascii ''ha'')\<rparr>" and
      q = "ascii ''ha''" and v = "panel exampleSystem",
      THEN conjunct2, THEN conjunct2, THEN conjunct2, THEN conjunct1, THEN mp, OF conjI [OF q l(2)]]
  note E = T [where s = ?s and q = "ascii ''ha''" and db = exampleDatabase,
      THEN conjunct2, THEN conjunct2, THEN conjunct2, THEN conjunct2, THEN mp,
      OF conjI [OF i(1) conjI [OF l(2) example_queries(3)]]]
  have a: "updateGrid ?p ?v =
     ((panel exampleSystem)
        \<lparr>currentCategoryName := ascii ''Gestures & People'',
         tiles := [\<lparr>tile_emoji = Some [0xD83D, 0xDC4B, 0xD83C, 0xDFFC],
                    tile_name = ascii ''waving hand''\<rparr>],
         categoriesEnabled := True\<rparr>, Completed)"
    unfolding A by (simp add: examplePicker_def)
  have b: "tiles (panel (step exampleDatabase ?s (SearchInput (ascii ''w'')))) =
     [\<lparr>tile_emoji = Some [0xD83D, 0xDE00], tile_name = ascii ''grinning face''\<rparr>]"
    unfolding B by (simp add: examplePicker_def exampleSystem_def)
  have c: "panel (run exampleDatabase ?t [SearchInput (ascii ''w''), LookupSettles 0]) =
     (panel exampleSystem)
       \<lparr>tiles := [\<lparr>tile_emoji = Some [0xD83D, 0xDE00], tile_name = ascii ''grinning face''\<rparr>,
                  \<lparr>tile_emoji = Some [0xD83D, 0xDC4B, 0xD83C, 0xDFFC],
                    tile_name = ascii ''waving hand''\<rparr>],
        categoriesEnabled := False\<rparr>"
    unfolding C
    by (simp add: examplePicker_def exampleSystem_def queriedName_def watermelon_def
        wavingHand_def ascii_def dom_def)
  have e: "tiles (panel (run exampleDatabase ?s [SearchInput (ascii ''ha''), LookupSettles 0])) =
     [\<lparr>tile_emoji = Some [0xD83D, 0xDC4B, 0xD83C, 0xDFFC], tile_name = ascii ''waving hand''\<rparr>,
      \<lparr>tile_emoji = Some [0xD83D, 0xDE00], tile_name = ascii ''grinning face''\<rparr>]"
    unfolding E
    by (simp add: examplePicker_def exampleSystem_def queriedName_def watermelon_def
        wavingHand_def grinningFace_def ascii_def dom_def)
  from a b c D e show ?thesis by (intro conjI)
qed

text \<open>
  The claim of C5 fails after an earlier search: the user types \<open>wa\<close> and deletes the
  \<open>a\<close> before the lookup resolves. The text \<open>w\<close> shows the category; when the lookup
  of \<open>wa\<close> resolves, its tile is added behind the category's and the categories are
  disabled, while the search text is still \<open>w\<close>.
\<close>

theorem length2_boundary_counterexample:
  "p_searchQuery (picker (run exampleDatabase exampleSystem
      [SearchInput (ascii ''wa''), SearchInput (ascii ''w''), LookupSettles 0])) =
     Some (ascii ''w'') \<and>
   tiles (panel (run exampleDatabase exampleSystem
      [SearchInput (ascii ''wa''), SearchInput (ascii ''w'')])) =
     [\<lparr>tile_emoji = Some [0xD83D, 0xDE00], tile_name = ascii ''grinning face''\<rparr>] \<and>
   tiles (panel (run exampleDatabase exampleSystem
      [SearchInput (ascii ''wa''), SearchInput (ascii ''w''), LookupSettles 0])) =
     [\<lparr>tile_emoji = Some [0xD83D, 0xDE00], tile_name = ascii ''grinning face''\<rparr>,
      \<lparr>tile_emoji = Some [0xD83D, 0xDC4B], tile_name = ascii ''waving hand''\<rparr>] \<and>
   categoriesEnabled (panel (run exampleDatabase exampleSystem
      [SearchInput (ascii ''wa''), SearchInput (ascii ''w''), LookupSettles 0])) = False"
  by (simp add: run_example_simps)

text \<open>
  C7: when the search resolves, the resumed \<open>_updateGrid\<close> completes without an error and
  appends one tile for each entry of the result whose name (its annotation, or the empty
  string for an entry without one) is a key of \<open>_emojis\<close>, in the order of the result,
  built from the catalog's variants of that name; every other entry is left out. After a
  search with no other lookup in flight these are all the visible tiles, and no rejection
  is raised.
\<close>

theorem search_resolution_drops_unknown:
  "updateGrid_resumed p v (Inr queryResult) =
     (v\<lparr>tiles := tiles v @
          map (\<lambda>e. \<lparr>tile_emoji = tileEmoji (p_selectedSkinTone p)
                        \<lparr>name = queriedName e, emojis = the (p_emojis p (queriedName e))\<rparr>,
                     tile_name = queriedName e\<rparr>)
            (filter (\<lambda>e. queriedName e \<in> dom (p_emojis p)) queryResult),
        categoriesEnabled := False\<rparr>, Completed) \<and>
   (inflight s = [] \<and> 2 \<le> length q \<and> getEmojiBySearchQuery db q = Inr queryResult \<longrightarrow>
      tiles (panel (run db s [SearchInput q, LookupSettles 0])) =
        map (\<lambda>e. \<lparr>tile_emoji = tileEmoji (p_selectedSkinTone (picker s))
                      \<lparr>name = queriedName e, emojis = the (p_emojis (picker s) (queriedName e))\<rparr>,
                   tile_name = queriedName e\<rparr>)
          (filter (\<lambda>e. queriedName e \<in> dom (p_emojis (picker s))) queryResult) \<and>
      unhandled (run db s [SearchInput q, LookupSettles 0]) = unhandled s)"
proof (intro conjI impI)
  show "updateGrid_resumed p v (Inr queryResult) =
     (v\<lparr>tiles := tiles v @
          map (\<lambda>e. \<lparr>tile_emoji = tileEmoji (p_selectedSkinTone p)
                        \<lparr>name = queriedName e, emojis = the (p_emojis p (queriedName e))\<rparr>,
                     tile_name = queriedName e\<rparr>)
            (filter (\<lambda>e. queriedName e \<in> dom (p_emojis p)) queryResult),
        categoriesEnabled := False\<rparr>, Completed)"
    by (simp only: updateGrid_resumed_resolved resultTiles_filter)
next
  assume a: "inflight s = [] \<and> 2 \<le> length q \<and> getEmojiBySearchQuery db q = Inr queryResult"
  then have r: "run db s [SearchInput q, LookupSettles 0] =
        s\<lparr>picker := (picker s)\<lparr>p_searchQuery := Some q\<rparr>,
          panel := (panel s)\<lparr>tiles := resultTiles (picker s) queryResult,
                             categoriesEnabled := False\<rparr>\<rparr>"
    by (simp add: step_SearchInput_long step_LookupSettles_resolved removeAt_def)
  show "tiles (panel (run db s [SearchInput q, LookupSettles 0])) =
        map (\<lambda>e. \<lparr>tile_emoji = tileEmoji (p_selectedSkinTone (picker s))
                      \<lparr>name = queriedName e, emojis = the (p_emojis (picker s) (queriedName e))\<rparr>,
                   tile_name = queriedName e\<rparr>)
          (filter (\<lambda>e. queriedName e \<in> dom (p_emojis (picker s))) queryResult)"
    unfolding r by (simp add: resultTiles_filter)
  show "unhandled (run db s [SearchInput q, LookupSettles 0]) = unhandled s"
    unfolding r by simp
qed

theorem search_resolution_drops_unknown_witness:
  "getEmojiBySearchQuery exampleDatabase (ascii ''wa'') =
     Inr [Native watermelon, Native wavingHand, Custom (ascii ''wax'')] \<and>
   tiles (panel (run exampleDatabase exampleSystem [SearchInput (ascii ''wa''), LookupSettles 0])) =
     [\<lparr>tile_emoji = Some [0xD83D, 0xDC4B], tile_name = ascii ''waving hand''\<rparr>] \<and>
   unhandled (run exampleDatabase exampleSystem [SearchInput (ascii ''wa''), LookupSettles 0]) = []"
proof -
  have i: "inflight exampleSystem = []" "unhandled exampleSystem = []"
    by (simp_all add: exampleSystem_def)
  have l: "2 \<le> length (ascii ''wa'')" by (simp add: ascii_def)
  have d: "map (\<lambda>e. \<lparr>tile_emoji = tileEmoji (p_selectedSkinTone (picker exampleSystem))
                      \<lparr>name = queriedName e,
                       emojis = the (p_emojis (picker exampleSystem) (queriedName e))\<rparr>,
                   tile_name = queriedName e\<rparr>)
          (filter (\<lambda>e. queriedName e \<in> dom (p_emojis (picker exampleSystem)))
             [Native watermelon, Native wavingHand, Custom (ascii ''wax'')]) =
     [\<lparr>tile_emoji = Some [0xD83D, 0xDC4B], tile_name = ascii ''waving hand''\<rparr>]"
    by (simp add: run_example_simps dom_def)
  from i l d example_queries(1)
    search_resolution_drops_unknown [where s = exampleSystem and db = exampleDatabase and
      q = "ascii ''wa''" and
      queryResult = "[Native watermelon, Native wavingHand, Custom (ascii ''wax'')]"]
  show ?thesis by simp
qed

text \<open>
  C8 (as the code has it): while the search text has at least two characters and no
  lookup is in flight, a change of the category or of the tone clears the grid and starts
  the search again. Once that lookup resolves, after a category change the tiles are again
  those of the search result, whatever the category, which is stored; after a tone change
  the new tone is stored and the tiles of the search result are rendered with it.
\<close>

theorem change_while_searching:
  "inflight s = [] \<and> p_searchQuery (picker s) = Some q \<and> 2 \<le> length q \<and>
   getEmojiBySearchQuery db q = Inr r \<longrightarrow>
     tiles (panel (step db s (CategoryChange c))) = [] \<and>
     run db s [CategoryChange c, LookupSettles 0] =
       s\<lparr>panel := (panel s)\<lparr>currentCategoryName := c, tiles := resultTiles (picker s) r,
                          categoriesEnabled := False\<rparr>\<rparr> \<and>
     tiles (panel (step db s (ToneChange k))) = [] \<and>
     run db s [ToneChange k, LookupSettles 0] =
       s\<lparr>picker := (picker s)\<lparr>p_selectedSkinTone := k\<rparr>,
         panel := (panel s)
           \<lparr>tiles := map (\<lambda>item. \<lparr>tile_emoji = tileEmoji k item, tile_name = name item\<rparr>)
                       (filterBoolean (map (queriedTile (picker s)) r)),
            categoriesEnabled := False\<rparr>\<rparr>"
  by (simp add: step_CategoryChange_searching step_ToneChange_searching
      step_LookupSettles_resolved removeAt_def resultTiles_def)

theorem change_while_searching_witness:
  "tiles (panel (run exampleDatabase
      (exampleSystem\<lparr>picker := examplePicker\<lparr>p_searchQuery := Some (ascii ''wa'')\<rparr>\<rparr>)
      [CategoryChange (ascii ''Gestures & People''), LookupSettles 0])) =
     [\<lparr>tile_emoji = Some [0xD83D, 0xDC4B], tile_name = ascii ''waving hand''\<rparr>] \<and>
   tiles (panel (run exampleDatabase
      (exampleSystem\<lparr>picker := examplePicker\<lparr>p_searchQuery := Some (ascii ''wa'')\<rparr>\<rparr>)
      [ToneChange 2, LookupSettles 0])) =
     [\<lparr>tile_emoji = Some [0xD83D, 0xDC4B, 0xD83C, 0xDFFC], tile_name = ascii ''waving hand''\<rparr>]"
proof -
  let ?s = "exampleSystem\<lparr>picker := examplePicker\<lparr>p_searchQuery := Some (ascii ''wa'')\<rparr>\<rparr>"
  have i: "inflight ?s = []" "p_searchQuery (picker ?s) = Some (ascii ''wa'')"
    by (simp_all add: exampleSystem_def)
  have l: "2 \<le> length (ascii ''wa'')" by (simp add: ascii_def)
  have wa: "resultTiles (picker ?s)
      [Native watermelon, Native wavingHand, Custom (ascii ''wax'')] =
     [\<lparr>tile_emoji = Some [0xD83D, 0xDC4B], tile_name = ascii ''waving hand''\<rparr>]"
    by (simp add: run_example_simps)
  have t: "map (\<lambda>item. \<lparr>tile_emoji = tileEmoji 2 item, tile_name = name item\<rparr>)
       (filterBoolean (map (queriedTile (picker ?s))
          [Native watermelon, Native wavingHand, Custom (ascii ''wax'')])) =
     [\<lparr>tile_emoji = Some [0xD83D, 0xDC4B, 0xD83C, 0xDFFC], tile_name = ascii ''waving hand''\<rparr>]"
    by (simp add: run_example_simps)
  from i l wa t example_queries(1)
    change_while_searching [where s = ?s and db = exampleDatabase and q = "ascii ''wa''" and
      r = "[Native watermelon, Native wavingHand, Custom (ascii ''wax'')]" and k = 2 and
      c = "ascii ''Gestures & People''"]
  show ?thesis by simp
qed

text \<open>
  The claim of C8 fails: with the tiles of the search \<open>wa\<close> shown, selecting tone 1
  empties the grid, and when the lookup resolves the waving hand is shown in tone 1.
\<close>

theorem change_while_searching_counterexample:
  "p_searchQuery (picker (run exampleDatabase exampleSystem
      [SearchInput (ascii ''wa''), LookupSettles 0])) = Some (ascii ''wa'') \<and>
   tiles (panel (run exampleDatabase exampleSystem [SearchInput (ascii ''wa''), LookupSettles 0])) =
     [\<lparr>tile_emoji = Some [0xD83D, 0xDC4B], tile_name = ascii ''waving hand''\<rparr>] \<and>
   tiles (panel (run exampleDatabase exampleSystem
      [SearchInput (ascii ''wa''), LookupSettles 0, ToneChange 1, LookupSettles 0])) =
     [\<lparr>tile_emoji = Some [0xD83D, 0xDC4B, 0xD83C, 0xDFFB], tile_name = ascii ''waving hand''\<rparr>] \<and>
   tiles (panel (run exampleDatabase exampleSystem
      [SearchInput (ascii ''wa''), LookupSettles 0, ToneChange 1])) = []"
  by (simp add: run_example_simps)

text \<open>
  C10: the lookup of a category finds no group, and \<open>_getEmojisForCategory\<close> throws,
  exactly when no loaded group has the name as its title. In that case a grid update in
  category browsing clears the grid and throws instead of completing, and the listener of
  a category change leaves an unhandled rejection.
\<close>

theorem categoryLookup_partial:
  "(find (\<lambda>g. title g = c) (p_emojiGroups p) = None \<longleftrightarrow> (\<forall>g\<in>set (p_emojiGroups p). title g \<noteq> c)) \<and>
   (getEmojisForCategory p c = Inl TypeError \<longleftrightarrow> (\<forall>g\<in>set (p_emojiGroups p). title g \<noteq> c)) \<and>
   (shortQuery (p_searchQuery p) \<and> (\<forall>g\<in>set (p_emojiGroups p). title g \<noteq> currentCategoryName v) \<longrightarrow>
      updateGrid p v = (v\<lparr>tiles := []\<rparr>, Threw TypeError)) \<and>
   (shortQuery (p_searchQuery (picker s)) \<and> (\<forall>g\<in>set (p_emojiGroups (picker s)). title g \<noteq> c) \<longrightarrow>
      step db s (CategoryChange c) =
        s\<lparr>panel := (panel s)\<lparr>currentCategoryName := c, tiles := []\<rparr>,
          unhandled := unhandled s @ [TypeError]\<rparr>)"
proof (intro conjI impI)
  show "find (\<lambda>g. title g = c) (p_emojiGroups p) = None \<longleftrightarrow> (\<forall>g\<in>set (p_emojiGroups p). title g \<noteq> c)"
    by (rule find_None_title)
  show "getEmojisForCategory p c = Inl TypeError \<longleftrightarrow> (\<forall>g\<in>set (p_emojiGroups p). title g \<noteq> c)"
    by (simp add: getEmojisForCategory_def find_None_title [symmetric] split: option.splits)
next
  assume "shortQuery (p_searchQuery p) \<and> (\<forall>g\<in>set (p_emojiGroups p). title g \<noteq> currentCategoryName v)"
  then show "updateGrid p v = (v\<lparr>tiles := []\<rparr>, Threw TypeError)"
    by (simp add: updateGrid_no_group find_None_title)
next
  assume a: "shortQuery (p_searchQuery (picker s)) \<and> (\<forall>g\<in>set (p_emojiGroups (picker s)). title g \<noteq> c)"
  then have "updateGrid (picker s) ((panel s)\<lparr>currentCategoryName := c\<rparr>) =
      ((panel s)\<lparr>currentCategoryName := c, tiles := []\<rparr>, Threw TypeError)"
    by (simp add: updateGrid_no_group find_None_title)
  then show "step db s (CategoryChange c) =
        s\<lparr>panel := (panel s)\<lparr>currentCategoryName := c, tiles := []\<rparr>,
          unhandled := unhandled s @ [TypeError]\<rparr>"
    by (simp add: step.simps afterUpdate_def)
qed

theorem categoryLookup_partial_witness:
  "getEmojisForCategory examplePicker (ascii ''Flags'') = Inl TypeError \<and>
   updateGrid examplePicker ((panel exampleSystem)\<lparr>currentCategoryName := ascii ''Flags''\<rparr>) =
     ((panel exampleSystem)\<lparr>currentCategoryName := ascii ''Flags'', tiles := []\<rparr>, Threw TypeError) \<and>
   unhandled (step exampleDatabase exampleSystem (CategoryChange (ascii ''Flags''))) = [TypeError]"
proof -
  have a: "\<forall>g\<in>set (p_emojiGroups examplePicker). title g \<noteq> ascii ''Flags''"
    by (simp add: examplePicker_def ascii_def)
  have b: "shortQuery (p_searchQuery examplePicker)"
    by (simp add: examplePicker_def shortQuery_def)
  have p: "picker exampleSystem = examplePicker" "unhandled exampleSystem = []"
    by (simp_all add: exampleSystem_def)
  from a b p
    categoryLookup_partial [where p = examplePicker and c = "ascii ''Flags''" and
      v = "(panel exampleSystem)\<lparr>currentCategoryName := ascii ''Flags''\<rparr>" and
      s = exampleSystem and db = exampleDatabase]
  show ?thesis by simp
qed


section \<open>The mention feed\<close>

text \<open>
  C9 (as the code has it): for a finite limit of at least 1, every feed that
  \<open>getQueryEmojiFn\<close> returns holds the first items of the mapped search result, in its
  order, as many as there are indices below \<open>queryLimit - 1\<close>, and then the show-all entry
  as its last element. It has at most \<open>queryLimit\<close> entries when the limit is a whole
  number, and at most the limit rounded up otherwise. Such a feed is returned whenever the
  search resolves with native emoji; with an infinite limit all of its items are kept.
\<close>

theorem getQueryEmojiFn_limit:
  "(1 \<le> q \<longrightarrow>
      (\<forall>feed. getQueryEmojiFn u db (Finite q) searchQuery = Inr feed \<longrightarrow>
         int (length feed) \<le> \<lceil>q\<rceil> \<and>
         (q = of_int n \<longrightarrow> int (length feed) \<le> n) \<and>
         length (butlast feed) \<le> nat \<lceil>q - 1\<rceil> \<and>
         last feed = \<lparr>item_id = getShowAllEmojiId u, item_text = None\<rparr> \<and>
         (\<exists>queryResult processedQuery.
            getEmojiBySearchQuery db searchQuery = Inr queryResult \<and>
            mapFeed u queryResult = Inr processedQuery \<and>
            butlast feed = take (nat \<lceil>q - 1\<rceil>) processedQuery)) \<and>
      (getEmojiBySearchQuery db searchQuery = Inr (map Native natives) \<longrightarrow>
         getQueryEmojiFn u db (Finite q) searchQuery =
           Inr (map (\<lambda>e. \<lparr>item_id = formatEmojiId u
                                  (toLocaleLowerCase u (replaceSeparators (annotation e))),
                            item_text = Some (unicode e)\<rparr>)
                  (take (nat \<lceil>q - 1\<rceil>) natives) @
                [\<lparr>item_id = getShowAllEmojiId u, item_text = None\<rparr>]))) \<and>
   (getEmojiBySearchQuery db searchQuery = Inr (map Native natives) \<longrightarrow>
      getQueryEmojiFn u db PosInfinity searchQuery =
        Inr (map (\<lambda>e. \<lparr>item_id = formatEmojiId u
                               (toLocaleLowerCase u (replaceSeparators (annotation e))),
                         item_text = Some (unicode e)\<rparr>) natives @
             [\<lparr>item_id = getShowAllEmojiId u, item_text = None\<rparr>]))"
proof (intro impI conjI allI)
  fix feed
  assume l: "1 \<le> q" and f: "getQueryEmojiFn u db (Finite q) searchQuery = Inr feed"
  from f obtain queryResult processedQuery where
    r: "getEmojiBySearchQuery db searchQuery = Inr queryResult" and
    m: "mapFeed u queryResult = Inr processedQuery" and
    feed: "feed = take (nat \<lceil>q - 1\<rceil>) processedQuery @
             [\<lparr>item_id = getShowAllEmojiId u, item_text = None\<rparr>]"
    by (auto simp: getQueryEmojiFn_def filterIndex_take split: sum.splits)
  from l have c: "1 \<le> \<lceil>q\<rceil>" by (simp add: le_ceiling_iff)
  have "length feed \<le> nat (\<lceil>q\<rceil> - 1) + 1" by (simp add: feed)
  with c show b: "int (length feed) \<le> \<lceil>q\<rceil>" by linarith
  show "int (length feed) \<le> n" if "q = of_int n" using b that by simp
  show "length (butlast feed) \<le> nat \<lceil>q - 1\<rceil>" by (simp add: feed)
  show "last feed = \<lparr>item_id = getShowAllEmojiId u, item_text = None\<rparr>" by (simp add: feed)
  show "\<exists>queryResult processedQuery.
           getEmojiBySearchQuery db searchQuery = Inr queryResult \<and>
           mapFeed u queryResult = Inr processedQuery \<and>
           butlast feed = take (nat \<lceil>q - 1\<rceil>) processedQuery"
    using r m by (simp add: feed)
next
  assume "getEmojiBySearchQuery db searchQuery = Inr (map Native natives)"
  then show "getQueryEmojiFn u db (Finite q) searchQuery =
           Inr (map (\<lambda>e. \<lparr>item_id = formatEmojiId u
                                  (toLocaleLowerCase u (replaceSeparators (annotation e))),
                            item_text = Some (unicode e)\<rparr>)
                  (take (nat \<lceil>q - 1\<rceil>) natives) @
                [\<lparr>item_id = getShowAllEmojiId u, item_text = None\<rparr>])"
    by (simp add: getQueryEmojiFn_def mapFeed_Native filterIndex_take take_map)
next
  assume "getEmojiBySearchQuery db searchQuery = Inr (map Native natives)"
  then show "getQueryEmojiFn u db PosInfinity searchQuery =
        Inr (map (\<lambda>e. \<lparr>item_id = formatEmojiId u
                               (toLocaleLowerCase u (replaceSeparators (annotation e))),
                         item_text = Some (unicode e)\<rparr>) natives @
             [\<lparr>item_id = getShowAllEmojiId u, item_text = None\<rparr>])"
    by (simp add: getQueryEmojiFn_def mapFeed_Native filterIndex_PosInfinity)
qed

theorem getQueryEmojiFn_limit_witness:
  "getQueryEmojiFn exampleUtils exampleDatabase (Finite 3) (ascii ''ha'') =
     Inr [\<lparr>item_id = ascii '':waving_hand:'', item_text = Some [0xD83D, 0xDC4B]\<rparr>,
          \<lparr>item_id = ascii '':grinning_face:'', item_text = Some [0xD83D, 0xDE00]\<rparr>,
          \<lparr>item_id = ascii '':__SHOW_ALL_EMOJI__:'', item_text = None\<rparr>] \<and>
   getQueryEmojiFn exampleUtils exampleDatabase (Finite 1) (ascii ''ha'') =
     Inr [\<lparr>item_id = ascii '':__SHOW_ALL_EMOJI__:'', item_text = None\<rparr>] \<and>
   int (length (projr (getQueryEmojiFn exampleUtils exampleDatabase (Finite 3) (ascii ''ha'')))) \<le> 3"
proof -
  have q: "getEmojiBySearchQuery exampleDatabase (ascii ''ha'') =
      Inr (map Native [wavingHand, grinningFace, watermelon])"
    by (simp add: example_queries)
  have l3: "(1::rat) \<le> 3" and l1: "(1::rat) \<le> 1" and w: "(3::rat) = of_int 3" by simp_all
  have c: "nat \<lceil>(3::rat) - 1\<rceil> = 2" "nat \<lceil>(1::rat) - 1\<rceil> = 0" by simp_all
  note T = getQueryEmojiFn_limit [where db = exampleDatabase and
      searchQuery = "ascii ''ha''" and natives = "[wavingHand, grinningFace, watermelon]" and
      u = exampleUtils]
  note T3 = T [where q = 3 and n = 3, THEN conjunct1, THEN mp, OF l3]
  note R3 = T3 [THEN conjunct2, THEN mp, OF q]
  note A3 = T3 [THEN conjunct1, THEN spec, THEN mp, OF R3]
  note R1 = T [where q = 1 and n = 1, THEN conjunct1, THEN mp, OF l1, THEN conjunct2, THEN mp, OF q]
  have a: "getQueryEmojiFn exampleUtils exampleDatabase (Finite 3) (ascii ''ha'') =
     Inr [\<lparr>item_id = ascii '':waving_hand:'', item_text = Some [0xD83D, 0xDC4B]\<rparr>,
          \<lparr>item_id = ascii '':grinning_face:'', item_text = Some [0xD83D, 0xDE00]\<rparr>,
          \<lparr>item_id = ascii '':__SHOW_ALL_EMOJI__:'', item_text = None\<rparr>]"
    unfolding R3 c
    by (simp add: exampleUtils_def wavingHand_def grinningFace_def ascii_def isSeparator_def)
  have d: "getQueryEmojiFn exampleUtils exampleDatabase (Finite 1) (ascii ''ha'') =
     Inr [\<lparr>item_id = ascii '':__SHOW_ALL_EMOJI__:'', item_text = None\<rparr>]"
    unfolding R1 c by (simp add: exampleUtils_def ascii_def)
  from A3 [THEN conjunct2, THEN conjunct1, THEN mp, OF w]
  have b: "int (length (projr (getQueryEmojiFn exampleUtils exampleDatabase (Finite 3)
      (ascii ''ha'')))) \<le> 3"
    unfolding R3 by simp
  from a d b show ?thesis by (intro conjI)
qed

text \<open>
  The claim of C9 fails at a limit that is not a whole number: with \<open>queryLimit = 2.5\<close>
  the indices 0 and 1 are below 1.5, and the feed has three entries.
\<close>

theorem getQueryEmojiFn_limit_counterexample:
  "getQueryEmojiFn exampleUtils exampleDatabase (Finite (5 / 2)) (ascii ''ha'') =
     Inr [\<lparr>item_id = ascii '':waving_hand:'', item_text = Some [0xD83D, 0xDC4B]\<rparr>,
          \<lparr>item_id = ascii '':grinning_face:'', item_text = Some [0xD83D, 0xDE00]\<rparr>,
          \<lparr>item_id = ascii '':__SHOW_ALL_EMOJI__:'', item_text = None\<rparr>] \<and>
   (1::rat) \<le> 5 / 2 \<and>
   (5 / 2 :: rat) < of_nat (length (projr (getQueryEmojiFn exampleUtils exampleDatabase
      (Finite (5 / 2)) (ascii ''ha''))))"
  by (simp add: getQueryEmojiFn_def exampleDatabase_def feedItem_def indexBelowLimit_def
      exampleUtils_def wavingHand_def grinningFace_def watermelon_def ascii_def isSeparator_def)

end
